theory Spec2Isabelle
  imports Complex_Main
begin

section \<open>The storage engine's built-in functions\<close>

text \<open>
  The repository computes everything inside SQL queries that it sends to DuckDB. The
  built-in scalar functions of the engine (the casts, \<open>LOWER\<close>, \<open>EPOCH\<close>,
  \<open>try_strptime\<close>) are not code of the repository, so the model takes them as a
  parameter: a record of functions on the cells of the source table. A cell is a value
  of an arbitrary type \<open>'c\<close>; SQL's \<open>NULL\<close> is \<open>None\<close> of \<open>'c option\<close>.
  A timestamp is the number of microseconds since the epoch, a calendar day is the
  number of days since the epoch.

  \<^item> \<open>try_integer\<close>, \<open>try_bigint\<close>, \<open>try_timestamp\<close>: \<open>TRY_CAST(x AS INTEGER)\<close>,
    \<open>TRY_CAST(x AS BIGINT)\<close>, \<open>TRY_CAST(x AS TIMESTAMP)\<close> on a cell that is not
    null; \<open>None\<close> is the \<open>NULL\<close> that \<open>TRY_CAST\<close> returns where \<open>CAST\<close> raises.
  \<^item> \<open>varchar\<close>: \<open>CAST(x AS VARCHAR)\<close>.
  \<^item> \<open>lower\<close>: \<open>LOWER\<close>.
  \<^item> \<open>epoch_bigint\<close>: \<open>CAST(EPOCH(t) AS BIGINT)\<close> of a timestamp.
  \<^item> \<open>try_strptime\<close>: \<open>try_strptime(s, format)\<close>.
\<close>

record 'c engine =
  try_integer :: "'c \<Rightarrow> int option"
  try_bigint :: "'c \<Rightarrow> int option"
  try_timestamp :: "'c \<Rightarrow> int option"
  varchar :: "'c \<Rightarrow> string"
  lower :: "string \<Rightarrow> string"
  epoch_bigint :: "int \<Rightarrow> int"
  try_strptime :: "string \<Rightarrow> string \<Rightarrow> int option"

datatype error = ConversionError | CatalogError | TypeError

text \<open>\<open>CAST\<close> raises a conversion error where \<open>TRY_CAST\<close> returns \<open>NULL\<close>.\<close>

definition cast_bigint :: "'c engine \<Rightarrow> 'c \<Rightarrow> error + int" where
  "cast_bigint E c = (case try_bigint E c of None \<Rightarrow> Inl ConversionError | Some n \<Rightarrow> Inr n)"

definition cast_timestamp :: "'c engine \<Rightarrow> 'c \<Rightarrow> error + int" where
  "cast_timestamp E c = (case try_timestamp E c of None \<Rightarrow> Inl ConversionError | Some t \<Rightarrow> Inr t)"

subsection \<open>Three-valued logic and aggregates\<close>

text \<open>
  A SQL condition is true, false or unknown (\<open>NULL\<close>): a \<open>bool option\<close>. A comparison
  with a \<open>NULL\<close> operand is unknown; \<open>AND\<close> is false as soon as one side is false;
  \<open>CASE WHEN c\<close> and \<open>WHERE c\<close> take the branch or the row only when \<open>c\<close> is true.
\<close>

definition is_not_null :: "'a option \<Rightarrow> bool option" where
  "is_not_null x = Some (x \<noteq> None)"

definition sql_ge :: "int option \<Rightarrow> int option \<Rightarrow> bool option" where
  "sql_ge x y = (case (x, y) of (Some a, Some b) \<Rightarrow> Some (a \<ge> b) | _ \<Rightarrow> None)"

definition sql_gt :: "int option \<Rightarrow> int option \<Rightarrow> bool option" where
  "sql_gt x y = (case (x, y) of (Some a, Some b) \<Rightarrow> Some (a > b) | _ \<Rightarrow> None)"

fun sql_and :: "bool option \<Rightarrow> bool option \<Rightarrow> bool option" where
  "sql_and (Some False) _ = Some False"
| "sql_and _ (Some False) = Some False"
| "sql_and (Some True) (Some True) = Some True"
| "sql_and _ _ = None"

definition sql_all :: "bool option list \<Rightarrow> bool option" where
  "sql_all cs = foldr sql_and cs (Some True)"

definition holds :: "bool option \<Rightarrow> bool" where
  "holds c = (c = Some True)"

text \<open>\<open>MIN\<close> skips the \<open>NULL\<close>s and is \<open>NULL\<close> when nothing is left.\<close>

fun min_agg :: "int option list \<Rightarrow> int option" where
  "min_agg [] = None"
| "min_agg (None # xs) = min_agg xs"
| "min_agg (Some x # xs) = (case min_agg xs of None \<Rightarrow> Some x | Some y \<Rightarrow> Some (min x y))"

text \<open>\<open>SUM(CASE WHEN c THEN 1 ELSE 0 END)\<close> over the rows of a group.\<close>

definition sum_case :: "('a \<Rightarrow> bool option) \<Rightarrow> 'a list \<Rightarrow> int" where
  "sum_case c g = sum_list (map (\<lambda>s. if holds (c s) then 1 else 0) g)"

text \<open>
  \<open>CAST(a AS DOUBLE) / NULLIF(b, 0)\<close>: \<open>NULL\<close> when the denominator is zero. The
  quotient is modelled as an exact rational.
\<close>

definition rate :: "int \<Rightarrow> int \<Rightarrow> rat option" where
  "rate a b = (if b = 0 then None else Some (of_int a / of_int b))"

section \<open>The funnel builder (\<open>app/api/scripts/build_item_funnel_features.py\<close>)\<close>

text \<open>A row of the source table, restricted to the four mapped columns.\<close>

record 'c raw_row =
  user_cell :: "'c option"
  item_cell :: "'c option"
  action_cell :: "'c option"
  ts_cell :: "'c option"

text \<open>A row of the view \<open>ub_norm\<close>.\<close>

record norm_event =
  user_id :: int
  item_id :: int
  action :: "string option"
  ts :: "int option"

text \<open>
  The \<open>action\<close> column of \<open>ub_norm\<close>: the integer decode is tried first, and an integer
  other than 1..4 gives \<open>NULL\<close>; a value that is no integer is lower-cased.
\<close>

definition ub_norm_action :: "'c engine \<Rightarrow> 'c \<Rightarrow> string option" where
  "ub_norm_action E a =
     (case try_integer E a of
        Some n \<Rightarrow>
          (if n = 1 then Some ''pv''
           else if n = 2 then Some ''fav''
           else if n = 3 then Some ''cart''
           else if n = 4 then Some ''buy''
           else None)
      | None \<Rightarrow> Some (lower E (varchar E a)))"

text \<open>
  The \<open>ts\<close> column of \<open>ub_norm\<close>: the \<open>BIGINT\<close> decode is tried first; otherwise the
  value is cast to \<open>TIMESTAMP\<close> with \<open>CAST\<close>, which raises when the value is no timestamp.
\<close>

definition ub_norm_ts :: "'c engine \<Rightarrow> 'c \<Rightarrow> error + int option" where
  "ub_norm_ts E t =
     (case try_bigint E t of
        Some n \<Rightarrow> Inr (Some n)
      | None \<Rightarrow>
          (case cast_timestamp E t of
             Inl e \<Rightarrow> Inl e
           | Inr t' \<Rightarrow> Inr (Some (epoch_bigint E t'))))"

text \<open>
  One row through the view: the \<open>WHERE\<close> clause drops a row with a \<open>NULL\<close> in one of the
  four columns (\<open>Inr None\<close>); the select list is evaluated on the rows that remain.
\<close>

definition ub_norm_row :: "'c engine \<Rightarrow> 'c raw_row \<Rightarrow> error + norm_event option" where
  "ub_norm_row E r =
     (case (user_cell r, item_cell r, action_cell r, ts_cell r) of
        (Some u, Some i, Some a, Some t) \<Rightarrow>
          (case cast_bigint E u of
             Inl e \<Rightarrow> Inl e
           | Inr uid \<Rightarrow>
               (case cast_bigint E i of
                  Inl e \<Rightarrow> Inl e
                | Inr iid \<Rightarrow>
                    (case ub_norm_ts E t of
                       Inl e \<Rightarrow> Inl e
                     | Inr t' \<Rightarrow>
                         Inr (Some \<lparr>user_id = uid, item_id = iid,
                                    action = ub_norm_action E a, ts = t'\<rparr>))))
      | _ \<Rightarrow> Inr None)"

fun ub_norm :: "'c engine \<Rightarrow> 'c raw_row list \<Rightarrow> error + norm_event list" where
  "ub_norm E [] = Inr []"
| "ub_norm E (r # rs) =
     (case ub_norm_row E r of
        Inl e \<Rightarrow> Inl e
      | Inr None \<Rightarrow> ub_norm E rs
      | Inr (Some ev) \<Rightarrow>
          (case ub_norm E rs of Inl e \<Rightarrow> Inl e | Inr evs \<Rightarrow> Inr (ev # evs)))"

text \<open>A row of the table \<open>user_item_stage\<close>.\<close>

record stage_row =
  s_user :: int
  s_item :: int
  pv_ts :: "int option"
  fav_ts :: "int option"
  cart_ts :: "int option"
  buy_ts :: "int option"

definition stage_events :: "norm_event list \<Rightarrow> norm_event list" where
  "stage_events evs =
     filter (\<lambda>e. action e \<in> {Some ''pv'', Some ''fav'', Some ''cart'', Some ''buy''}
                 \<and> ts e \<noteq> None) evs"

text \<open>\<open>MIN(CASE WHEN action = l THEN ts END)\<close> over the rows of a group.\<close>

definition min_ts :: "string \<Rightarrow> norm_event list \<Rightarrow> int option" where
  "min_ts l g = min_agg (map (\<lambda>e. if action e = Some l then ts e else None) g)"

text \<open>
  \<open>GROUP BY user_id, item_id\<close>: one row for each pair that occurs, here in the order
  of first occurrence (SQL leaves the order of the groups open).
\<close>

definition user_item_stage :: "norm_event list \<Rightarrow> stage_row list" where
  "user_item_stage evs =
     (let kept = stage_events evs
      in map (\<lambda>(u, i).
                let g = filter (\<lambda>e. user_id e = u \<and> item_id e = i) kept
                in \<lparr>s_user = u, s_item = i,
                    pv_ts = min_ts ''pv'' g, fav_ts = min_ts ''fav'' g,
                    cart_ts = min_ts ''cart'' g, buy_ts = min_ts ''buy'' g\<rparr>)
             (remdups (map (\<lambda>e. (user_id e, item_id e)) kept)))"

text \<open>The stage predicates of \<open>_select_sql\<close>, for \<open>strict = 0\<close> and for the other values.\<close>

definition pv_ok :: "stage_row \<Rightarrow> bool option" where
  "pv_ok s = is_not_null (pv_ts s)"

definition fav_ok :: "int \<Rightarrow> stage_row \<Rightarrow> bool option" where
  "fav_ok strict s =
     (if strict = 0
      then sql_all [is_not_null (pv_ts s), is_not_null (fav_ts s), sql_ge (fav_ts s) (pv_ts s)]
      else sql_all [is_not_null (pv_ts s), is_not_null (fav_ts s), sql_gt (fav_ts s) (pv_ts s)])"

definition cart_ok :: "int \<Rightarrow> stage_row \<Rightarrow> bool option" where
  "cart_ok strict s =
     (if strict = 0
      then sql_all [is_not_null (pv_ts s), is_not_null (cart_ts s), sql_ge (cart_ts s) (pv_ts s)]
      else sql_all [is_not_null (pv_ts s), is_not_null (fav_ts s), is_not_null (cart_ts s),
                    sql_gt (fav_ts s) (pv_ts s), sql_gt (cart_ts s) (fav_ts s)])"

definition buy_ok :: "int \<Rightarrow> stage_row \<Rightarrow> bool option" where
  "buy_ok strict s =
     (if strict = 0
      then sql_all [is_not_null (pv_ts s), is_not_null (buy_ts s), sql_ge (buy_ts s) (pv_ts s)]
      else sql_all [is_not_null (pv_ts s), is_not_null (fav_ts s), is_not_null (cart_ts s),
                    is_not_null (buy_ts s),
                    sql_gt (fav_ts s) (pv_ts s), sql_gt (cart_ts s) (fav_ts s),
                    sql_gt (buy_ts s) (cart_ts s)])"

definition fav_cart_ok :: "int \<Rightarrow> stage_row \<Rightarrow> bool option" where
  "fav_cart_ok strict s =
     (if strict = 0
      then sql_all [is_not_null (fav_ts s), is_not_null (cart_ts s), sql_ge (cart_ts s) (fav_ts s)]
      else sql_all [is_not_null (fav_ts s), is_not_null (cart_ts s), sql_gt (cart_ts s) (fav_ts s)])"

definition cart_buy_ok :: "int \<Rightarrow> stage_row \<Rightarrow> bool option" where
  "cart_buy_ok strict s =
     (if strict = 0
      then sql_all [is_not_null (cart_ts s), is_not_null (buy_ts s), sql_ge (buy_ts s) (cart_ts s)]
      else sql_all [is_not_null (cart_ts s), is_not_null (buy_ts s), sql_gt (buy_ts s) (cart_ts s)])"

text \<open>A row of \<open>item_funnel_features_loose\<close> or \<open>item_funnel_features_strict\<close>.\<close>

record funnel_row =
  f_item :: int
  pv :: int
  fav :: int
  cart :: int
  buy :: int
  pv_count :: int
  fav_count :: int
  cart_count :: int
  buy_count :: int
  pv_to_fav_rate :: "rat option"
  pv_to_cart_rate :: "rat option"
  pv_to_buy_rate :: "rat option"
  fav_to_cart_rate :: "rat option"
  cart_to_buy_rate :: "rat option"

text \<open>The select list of \<open>_select_sql\<close> on the rows \<open>g\<close> of the group of item \<open>i\<close>.\<close>

definition select_group :: "int \<Rightarrow> int \<Rightarrow> stage_row list \<Rightarrow> funnel_row" where
  "select_group strict i g =
     \<lparr>f_item = i,
      pv = sum_case pv_ok g,
      fav = sum_case (fav_ok strict) g,
      cart = sum_case (cart_ok strict) g,
      buy = sum_case (buy_ok strict) g,
      pv_count = sum_case pv_ok g,
      fav_count = sum_case (fav_ok strict) g,
      cart_count = sum_case (cart_ok strict) g,
      buy_count = sum_case (buy_ok strict) g,
      pv_to_fav_rate = rate (sum_case (fav_ok strict) g) (sum_case pv_ok g),
      pv_to_cart_rate = rate (sum_case (cart_ok strict) g) (sum_case pv_ok g),
      pv_to_buy_rate = rate (sum_case (buy_ok strict) g) (sum_case pv_ok g),
      fav_to_cart_rate = rate (sum_case (fav_cart_ok strict) g) (sum_case (fav_ok strict) g),
      cart_to_buy_rate = rate (sum_case (cart_buy_ok strict) g) (sum_case (cart_ok strict) g)\<rparr>"

text \<open>\<open>_select_sql\<close>: \<open>FROM user_item_stage GROUP BY item_id\<close>.\<close>

definition select_sql :: "int \<Rightarrow> stage_row list \<Rightarrow> funnel_row list" where
  "select_sql strict stages =
     map (\<lambda>i. select_group strict i (filter (\<lambda>s. s_item s = i) stages))
         (remdups (map s_item stages))"

text \<open>
  The tables of the database that the builder writes. The views
  \<open>item_funnel_features\<close> and \<open>item_funnel_features_default\<close> select everything from the
  loose table, and creating them fails when that table does not exist.
\<close>

record funnel_db =
  item_funnel_features_loose :: "funnel_row list option"
  item_funnel_features_strict :: "funnel_row list option"

definition build_item_funnel_features ::
  "'c engine \<Rightarrow> funnel_db \<Rightarrow> 'c raw_row list \<Rightarrow> string \<Rightarrow> error + funnel_db" where
  "build_item_funnel_features E db source_table mode =
     (case ub_norm E source_table of
        Inl e \<Rightarrow> Inl e
      | Inr evs \<Rightarrow>
          (let stages = user_item_stage evs;
               db1 = (if mode \<in> {''both'', ''nonstrict''}
                      then db\<lparr>item_funnel_features_loose := Some (select_sql 0 stages)\<rparr>
                      else db);
               db2 = (if mode \<in> {''both'', ''strict''}
                      then db1\<lparr>item_funnel_features_strict := Some (select_sql 1 stages)\<rparr>
                      else db1)
           in if item_funnel_features_loose db2 = None then Inl CatalogError else Inr db2))"

section \<open>The merchant metrics (\<open>app/api/merchant.py\<close>)\<close>

text \<open>
  The functions of this module answer with an error payload when DuckDB is not
  installed, when the table \<open>user_behavior\<close> is missing, or when it has no user or no
  timestamp column. The model is of the queries they run otherwise: the table is a
  parameter, a list of rows restricted to the columns the queries read, and it has its
  behavior column.
\<close>

record 'c behavior_row =
  ub_user :: "'c option"
  ub_behavior :: "'c option"
  ub_ts :: "'c option"

fun coalesce :: "'a option list \<Rightarrow> 'a option" where
  "coalesce [] = None"
| "coalesce (None # xs) = coalesce xs"
| "coalesce (Some x # xs) = Some x"

text \<open>\<open>_ts_expr\<close>: the timestamp column decoded, \<open>NULL\<close> when no decoder accepts it.\<close>

definition ts_expr :: "'c engine \<Rightarrow> 'c option \<Rightarrow> int option" where
  "ts_expr E x =
     (case x of
        None \<Rightarrow> None
      | Some c \<Rightarrow>
          coalesce [try_timestamp E c,
                    try_strptime E (varchar E c) ''%Y-%m-%d %H'',
                    try_strptime E (varchar E c) ''%Y-%m-%d %H:%M:%S'',
                    try_strptime E (varchar E c) ''%Y-%m-%d''])"

text \<open>\<open>_buy_pred\<close>; a \<open>NULL\<close> behavior makes both comparisons unknown.\<close>

definition buy_pred :: "'c engine \<Rightarrow> 'c option \<Rightarrow> bool option" where
  "buy_pred E b =
     (case b of
        None \<Rightarrow> None
      | Some c \<Rightarrow> Some (lower E (varchar E c) = ''buy'' \<or> varchar E c = ''4''))"

definition usec_per_day :: int where
  "usec_per_day = 86400000000"

text \<open>\<open>date(t)\<close>: the calendar day of a timestamp.\<close>

definition date :: "int \<Rightarrow> int" where
  "date t = t div usec_per_day"

definition interval_day :: "int \<Rightarrow> int" where
  "interval_day n = n * usec_per_day"

definition sql_eq :: "'a option \<Rightarrow> 'a option \<Rightarrow> bool option" where
  "sql_eq x y = (case (x, y) of (Some a, Some b) \<Rightarrow> Some (a = b) | _ \<Rightarrow> None)"

definition sql_le :: "int option \<Rightarrow> int option \<Rightarrow> bool option" where
  "sql_le x y = (case (x, y) of (Some a, Some b) \<Rightarrow> Some (a \<le> b) | _ \<Rightarrow> None)"

fun max_agg :: "int option list \<Rightarrow> int option" where
  "max_agg [] = None"
| "max_agg (None # xs) = max_agg xs"
| "max_agg (Some x # xs) = (case max_agg xs of None \<Rightarrow> Some x | Some y \<Rightarrow> Some (max x y))"

subsection \<open>D1 retention\<close>

text \<open>
  The common table \<open>day_users\<close>: the distinct pairs of a day and a user, from the rows
  whose timestamp decodes.
\<close>

definition day_users :: "'c engine \<Rightarrow> 'c behavior_row list \<Rightarrow> (int \<times> 'c option) list" where
  "day_users E tbl =
     remdups (List.map_filter
                (\<lambda>r. case ts_expr E (ub_ts r) of
                        None \<Rightarrow> None
                      | Some t \<Rightarrow> Some (date t, ub_user r)) tbl)"

text \<open>
  \<open>day_users a LEFT JOIN day_users b ON b.uid = a.uid AND b.d = a.d + interval 1 day\<close>:
  every row of \<open>a\<close> with each of its matches, or once with a \<open>NULL\<close> row when it has none.
\<close>

definition left_join_next_day ::
  "(int \<times> 'c option) list \<Rightarrow> ((int \<times> 'c option) \<times> (int \<times> 'c option) option) list" where
  "left_join_next_day du =
     concat (map (\<lambda>a.
        case filter (\<lambda>b. holds (sql_all [sql_eq (snd b) (snd a),
                                           Some (fst b = fst a + 1)])) du of
          [] \<Rightarrow> [(a, None)]
        | ms \<Rightarrow> map (\<lambda>b. (a, Some b)) ms) du)"

record d1_row =
  d1_day :: int
  active_users :: int
  retained_users :: int
  d1_rate :: "rat option"

text \<open>The common table \<open>ret\<close>, with the rate of the final select list.\<close>

definition ret :: "(int \<times> 'c option) list \<Rightarrow> d1_row list" where
  "ret du =
     (let j = left_join_next_day du
      in map (\<lambda>d.
                let g = filter (\<lambda>(a, b). fst a = d) j;
                    act = int (length g);
                    retained = sum_list (map (\<lambda>(a, b).
                                 case b of None \<Rightarrow> 0
                                 | Some b' \<Rightarrow> (if snd b' = None then 0 else (1::int))) g)
                in \<lparr>d1_day = d, active_users = act, retained_users = retained,
                    d1_rate = rate retained act\<rparr>)
             (remdups (map (\<lambda>(a, b). fst a) j)))"

text \<open>
  The D1 query: \<open>WHERE d < (SELECT max(d) FROM ret) ORDER BY d DESC LIMIT 1\<close>, read with
  \<open>fetchone\<close>: the row of the greatest day below the greatest day, if there is one.
\<close>

definition d1_retention :: "'c engine \<Rightarrow> 'c behavior_row list \<Rightarrow> d1_row option" where
  "d1_retention E tbl =
     (let r = ret (day_users E tbl);
          m = max_agg (map (\<lambda>x. Some (d1_day x)) r);
          cands = filter (\<lambda>x. holds (sql_gt m (Some (d1_day x)))) r
      in case rev (sort_key d1_day cands) of [] \<Rightarrow> None | x # _ \<Rightarrow> Some x)"

subsection \<open>Repurchase within 7 days\<close>

text \<open>The common table \<open>buys\<close>: user and decoded timestamp of the buy events.\<close>

definition buys :: "'c engine \<Rightarrow> 'c behavior_row list \<Rightarrow> ('c option \<times> int) list" where
  "buys E tbl =
     List.map_filter
       (\<lambda>r. case ts_expr E (ub_ts r) of
               None \<Rightarrow> None
             | Some t \<Rightarrow> (if holds (buy_pred E (ub_behavior r))
                          then Some (ub_user r, t) else None)) tbl"

text \<open>The common table \<open>first_buy\<close>: \<open>min(ts)\<close> for each user of \<open>buys\<close>.\<close>

definition first_buy :: "('c option \<times> int) list \<Rightarrow> ('c option \<times> int option) list" where
  "first_buy bs =
     map (\<lambda>u. (u, min_agg (map (\<lambda>b. Some (snd b)) (filter (\<lambda>b. fst b = u) bs))))
         (remdups (map fst bs))"

text \<open>The \<open>EXISTS\<close> subquery for a row \<open>fb\<close> of \<open>first_buy\<close>.\<close>

definition exists_rebuy :: "('c option \<times> int) list \<Rightarrow> 'c option \<times> int option \<Rightarrow> bool option" where
  "exists_rebuy bs fb =
     Some (list_ex (\<lambda>b2. holds (sql_all
             [sql_eq (fst b2) (fst fb),
              sql_gt (Some (snd b2)) (snd fb),
              sql_le (Some (snd b2)) (map_option (\<lambda>t. t + interval_day 7) (snd fb))])) bs)"

record repurchase_row =
  buyers :: int
  repurchasers :: "int option"
  rep_rate :: "rat option"

text \<open>
  The repurchase query. \<open>agg\<close> has no \<open>GROUP BY\<close>: it returns one row also when
  \<open>first_buy\<close> is empty, and then \<open>count(*)\<close> is 0 and \<open>sum\<close> is \<open>NULL\<close>.
\<close>

definition repurchase_7d :: "'c engine \<Rightarrow> 'c behavior_row list \<Rightarrow> repurchase_row" where
  "repurchase_7d E tbl =
     (let bs = buys E tbl;
          fbs = first_buy bs;
          n = int (length fbs);
          k = (if fbs = [] then None else Some (sum_case (exists_rebuy bs) fbs))
      in \<lparr>buyers = n, repurchasers = k,
          rep_rate = (case k of None \<Rightarrow> None | Some k' \<Rightarrow> rate k' n)\<rparr>)"

text \<open>
  The payload that \<open>_metrics_payload\<close> builds from the row: \<open>int(rep[1])\<close> raises a
  type error when the sum is \<open>NULL\<close>; a \<open>NULL\<close> rate stays \<open>None\<close>.
\<close>

record repurchase_payload =
  p_buyers :: int
  p_repurchasers_7d :: int
  p_rate :: "rat option"

definition rep_payload :: "'c engine \<Rightarrow> 'c behavior_row list \<Rightarrow> error + repurchase_payload" where
  "rep_payload E tbl =
     (let rep = repurchase_7d E tbl
      in case repurchasers rep of
           None \<Rightarrow> Inl TypeError
         | Some k \<Rightarrow> Inr \<lparr>p_buyers = buyers rep, p_repurchasers_7d = k, p_rate = rep_rate rep\<rparr>)"

subsection \<open>Lifecycle segments\<close>

text \<open>
  The common tables \<open>e\<close>, \<open>anchor\<close>, \<open>agg\<close> and \<open>seg\<close> are the same text in
  \<open>_segments_payload\<close> and in \<open>_segment_sql\<close>. A date minus an interval of \<open>n\<close> days is
  compared with a date: on day numbers, \<open>d \<ge> anchor_day - n\<close>.
\<close>

definition seg_e :: "'c engine \<Rightarrow> 'c behavior_row list \<Rightarrow> ('c option \<times> int) list" where
  "seg_e E tbl =
     remdups (List.map_filter
                (\<lambda>r. case ts_expr E (ub_ts r) of
                        None \<Rightarrow> None
                      | Some t \<Rightarrow> Some (ub_user r, date t)) tbl)"

definition anchor_day :: "('c option \<times> int) list \<Rightarrow> int option" where
  "anchor_day e = max_agg (map (\<lambda>x. Some (snd x)) e)"

record 'c agg_row =
  a_user :: "'c option"
  first_day :: "int option"
  last_day :: "int option"
  days_7d :: int
  active_days_30d :: int

definition agg :: "('c option \<times> int) list \<Rightarrow> 'c agg_row list" where
  "agg e =
     (let anchor = anchor_day e;
          w = filter (\<lambda>x. holds (sql_ge (Some (snd x)) (map_option (\<lambda>a. a - 30) anchor))) e
      in map (\<lambda>u.
                let g = filter (\<lambda>x. fst x = u) w
                in \<lparr>a_user = u,
                    first_day = min_agg (map (\<lambda>x. Some (snd x)) g),
                    last_day = max_agg (map (\<lambda>x. Some (snd x)) g),
                    days_7d = sum_case (\<lambda>x. sql_ge (Some (snd x)) (map_option (\<lambda>a. a - 7) anchor)) g,
                    active_days_30d = int (length g)\<rparr>)
             (remdups (map fst w)))"

text \<open>The \<open>CASE\<close> of \<open>seg\<close>: the first branch whose condition is true.\<close>

definition segment_case :: "int option \<Rightarrow> 'c agg_row \<Rightarrow> string" where
  "segment_case anchor r =
     (if holds (sql_eq (first_day r) anchor) then ''new''
      else if holds (sql_all [sql_eq (last_day r) anchor, Some (days_7d r \<ge> 3)]) then ''active''
      else if holds (sql_all [sql_gt anchor (last_day r),
                               sql_ge (last_day r) (map_option (\<lambda>a. a - 7) anchor)]) then ''warm''
      else if holds (sql_all [sql_gt (map_option (\<lambda>a. a - 7) anchor) (last_day r),
                               sql_ge (last_day r) (map_option (\<lambda>a. a - 30) anchor)]) then ''dormant''
      else ''dormant'')"

definition seg :: "'c engine \<Rightarrow> 'c behavior_row list \<Rightarrow> ('c option \<times> string) list" where
  "seg E tbl =
     (let e = seg_e E tbl
      in map (\<lambda>r. (a_user r, segment_case (anchor_day e) r)) (agg e))"

text \<open>The keys of \<open>_SEG_ZH\<close>.\<close>

definition SEG_ZH_keys :: "string list" where
  "SEG_ZH_keys = [''new'', ''active'', ''warm'', ''dormant'']"

text \<open>
  Python's \<open>str.strip\<close> and \<open>str.lower\<close>, on strings of code points below 256: the
  white space is the characters for which \<open>str.isspace\<close> holds, and the upper-case
  letters are those of ASCII and of Latin-1.
\<close>

definition py_isspace :: "char \<Rightarrow> bool" where
  "py_isspace c =
     ((of_char c :: nat) \<in> {9, 10, 11, 12, 13, 28, 29, 30, 31, 32, 133, 160})"

definition py_strip :: "string \<Rightarrow> string" where
  "py_strip s = rev (dropWhile py_isspace (rev (dropWhile py_isspace s)))"

definition py_lower_char :: "char \<Rightarrow> char" where
  "py_lower_char c =
     (let n = (of_char c :: nat)
      in if (65 \<le> n \<and> n \<le> 90) \<or> (192 \<le> n \<and> n \<le> 222 \<and> n \<noteq> 215)
         then char_of (n + 32) else c)"

definition py_lower :: "string \<Rightarrow> string" where
  "py_lower s = map py_lower_char s"

text \<open>
  \<open>_segment_sql\<close>: the segment name it resolves (the first component of its result).
  The argument is \<open>None\<close> or a string; \<open>segment or ""\<close> turns \<open>None\<close> into the empty string.
\<close>

definition segment_name :: "string option \<Rightarrow> string" where
  "segment_name segment =
     (let seg = py_lower (py_strip (case segment of None \<Rightarrow> [] | Some s \<Rightarrow> s))
      in if seg \<notin> set SEG_ZH_keys then ''warm'' else seg)"

text \<open>The rows of the query text that \<open>_segment_sql\<close> returns for a segment argument.\<close>

definition segment_sql :: "'c engine \<Rightarrow> 'c behavior_row list \<Rightarrow> string option \<Rightarrow> 'c option list" where
  "segment_sql E tbl segment =
     map fst (filter (\<lambda>x. snd x = segment_name segment) (seg E tbl))"

text \<open>
  \<open>action_export_users\<close>: the clamped limit, and the user ids written to the CSV (the
  query has no \<open>ORDER BY\<close>; the model keeps the first rows in the order of \<open>seg\<close>).
\<close>

definition export_limit :: "int \<Rightarrow> int" where
  "export_limit limit = max 1 (min limit 200000)"

definition action_export_users ::
  "'c engine \<Rightarrow> 'c behavior_row list \<Rightarrow> string option \<Rightarrow> int \<Rightarrow> 'c option list" where
  "action_export_users E tbl segment limit =
     take (nat (export_limit limit)) (segment_sql E tbl segment)"

section \<open>A reference engine\<close>

text \<open>
  The theorems below hold for every engine. To run the model on concrete tables, this
  section gives one instance of the built-ins on cells that are integers or strings. It
  decodes the plain forms only: a decimal integer with an optional minus sign, a
  timestamp written \<open>YYYY-MM-DD\<close>, \<open>YYYY-MM-DD HH\<close> or \<open>YYYY-MM-DD HH:MM:SS\<close>, and
  it lower-cases the letters of ASCII.
\<close>

datatype cell = CInt int | CStr string

definition is_digit :: "char \<Rightarrow> bool" where
  "is_digit c = (48 \<le> (of_char c :: nat) \<and> (of_char c :: nat) \<le> 57)"

fun digits_val :: "int \<Rightarrow> string \<Rightarrow> int option" where
  "digits_val acc [] = Some acc"
| "digits_val acc (c # cs) =
     (if is_digit c then digits_val (10 * acc + (of_char c - 48)) cs else None)"

definition parse_int :: "string \<Rightarrow> int option" where
  "parse_int s =
     (case s of
        [] \<Rightarrow> None
      | c # cs \<Rightarrow>
          (if c = CHR ''-''
           then (if cs = [] then None else map_option uminus (digits_val 0 cs))
           else digits_val 0 s))"

definition in_range :: "nat \<Rightarrow> int option \<Rightarrow> int option" where
  "in_range bits x =
     (case x of
        None \<Rightarrow> None
      | Some n \<Rightarrow> (if - (2 ^ (bits - 1)) \<le> n \<and> n < 2 ^ (bits - 1) then Some n else None))"

fun show_nat :: "nat \<Rightarrow> string" where
  "show_nat n =
     (if n < 10 then [char_of (48 + n)]
      else show_nat (n div 10) @ [char_of (48 + n mod 10)])"

definition show_int :: "int \<Rightarrow> string" where
  "show_int n = (if n < 0 then CHR ''-'' # show_nat (nat (- n)) else show_nat (nat n))"

definition ascii_lower :: "string \<Rightarrow> string" where
  "ascii_lower s =
     map (\<lambda>c. if 65 \<le> (of_char c :: nat) \<and> (of_char c :: nat) \<le> 90
              then char_of ((of_char c :: nat) + 32) else c) s"

text \<open>The day number of a date of the proleptic Gregorian calendar.\<close>

definition days_from_civil :: "int \<Rightarrow> int \<Rightarrow> int \<Rightarrow> int" where
  "days_from_civil y m d =
     (let y' = (if m \<le> 2 then y - 1 else y);
          era = y' div 400;
          yoe = y' - era * 400;
          doy = (153 * (if m > 2 then m - 3 else m + 9) + 2) div 5 + d - 1;
          doe = yoe * 365 + yoe div 4 - yoe div 100 + doy
      in era * 146097 + doe - 719468)"

definition days_in_month :: "int \<Rightarrow> int \<Rightarrow> int" where
  "days_in_month y m =
     (if m = 2 then (if y mod 4 = 0 \<and> (y mod 100 \<noteq> 0 \<or> y mod 400 = 0) then 29 else 28)
      else if m \<in> {4, 6, 9, 11} then 30 else 31)"

definition parse_date :: "string \<Rightarrow> int option" where
  "parse_date s =
     (if length s = 10 \<and> s ! 4 = CHR ''-'' \<and> s ! 7 = CHR ''-''
      then (case (digits_val 0 (take 4 s), digits_val 0 (take 2 (drop 5 s)),
                  digits_val 0 (drop 8 s)) of
              (Some y, Some m, Some d) \<Rightarrow>
                (if 1 \<le> m \<and> m \<le> 12 \<and> 1 \<le> d \<and> d \<le> days_in_month y m
                 then Some (days_from_civil y m d * usec_per_day) else None)
            | _ \<Rightarrow> None)
      else None)"

definition parse_hour :: "string \<Rightarrow> int option" where
  "parse_hour s =
     (if length s = 2
      then (case digits_val 0 s of
              Some h \<Rightarrow> (if h < 24 then Some (h * 3600000000) else None)
            | None \<Rightarrow> None)
      else None)"

definition parse_hms :: "string \<Rightarrow> int option" where
  "parse_hms s =
     (if length s = 8 \<and> s ! 2 = CHR '':'' \<and> s ! 5 = CHR '':''
      then (case (digits_val 0 (take 2 s), digits_val 0 (take 2 (drop 3 s)),
                  digits_val 0 (drop 6 s)) of
              (Some h, Some m, Some x) \<Rightarrow>
                (if h < 24 \<and> m < 60 \<and> x < 60
                 then Some ((h * 3600 + m * 60 + x) * 1000000) else None)
            | _ \<Rightarrow> None)
      else None)"

definition date_and_time :: "string \<Rightarrow> (string \<Rightarrow> int option) \<Rightarrow> int option" where
  "date_and_time s parse_time =
     (if length s > 10 \<and> s ! 10 = CHR '' ''
      then (case (parse_date (take 10 s), parse_time (drop 11 s)) of
              (Some d, Some t) \<Rightarrow> Some (d + t)
            | _ \<Rightarrow> None)
      else None)"

definition ref_strptime :: "string \<Rightarrow> string \<Rightarrow> int option" where
  "ref_strptime s fmt =
     (if fmt = ''%Y-%m-%d'' then parse_date s
      else if fmt = ''%Y-%m-%d %H'' then date_and_time s parse_hour
      else if fmt = ''%Y-%m-%d %H:%M:%S'' then date_and_time s parse_hms
      else None)"

definition round_seconds :: "int \<Rightarrow> int" where
  "round_seconds t =
     (let q = t div 1000000; r = t mod 1000000
      in if r < 500000 then q else if r > 500000 then q + 1
         else if even q then q else q + 1)"

definition reference_engine :: "cell engine" where
  "reference_engine =
     \<lparr>try_integer = (\<lambda>c. case c of CInt n \<Rightarrow> in_range 32 (Some n)
                                   | CStr s \<Rightarrow> in_range 32 (parse_int s)),
      try_bigint = (\<lambda>c. case c of CInt n \<Rightarrow> in_range 64 (Some n)
                                  | CStr s \<Rightarrow> in_range 64 (parse_int s)),
      try_timestamp = (\<lambda>c. case c of CInt n \<Rightarrow> None
                                     | CStr s \<Rightarrow> coalesce [date_and_time s parse_hms, parse_date s]),
      varchar = (\<lambda>c. case c of CInt n \<Rightarrow> show_int n | CStr s \<Rightarrow> s),
      lower = ascii_lower,
      epoch_bigint = round_seconds,
      try_strptime = ref_strptime\<rparr>"

section \<open>Concrete tables\<close>

definition mk_row :: "int \<Rightarrow> int \<Rightarrow> cell \<Rightarrow> cell \<Rightarrow> cell raw_row" where
  "mk_row u i a t =
     \<lparr>user_cell = Some (CInt u), item_cell = Some (CInt i),
      action_cell = Some a, ts_cell = Some t\<rparr>"

text \<open>
  One user walks item 1 through the whole funnel, an hour between the stages, and
  only favours item 2.
\<close>

definition funnel_demo :: "cell raw_row list" where
  "funnel_demo =
     [mk_row 1 1 (CStr ''pv'') (CInt 0),
      mk_row 1 1 (CStr ''fav'') (CInt 3600),
      mk_row 1 1 (CStr ''cart'') (CInt 7200),
      mk_row 1 1 (CStr ''buy'') (CInt 10800),
      mk_row 1 2 (CStr ''fav'') (CInt 0)]"

definition funnel_demo_norm :: "norm_event list" where
  "funnel_demo_norm =
     [\<lparr>user_id = 1, item_id = 1, action = Some ''pv'', ts = Some 0\<rparr>,
      \<lparr>user_id = 1, item_id = 1, action = Some ''fav'', ts = Some 3600\<rparr>,
      \<lparr>user_id = 1, item_id = 1, action = Some ''cart'', ts = Some 7200\<rparr>,
      \<lparr>user_id = 1, item_id = 1, action = Some ''buy'', ts = Some 10800\<rparr>,
      \<lparr>user_id = 1, item_id = 2, action = Some ''fav'', ts = Some 0\<rparr>]"

definition funnel_demo_stage :: "stage_row list" where
  "funnel_demo_stage =
     [\<lparr>s_user = 1, s_item = 1, pv_ts = Some 0, fav_ts = Some 3600,
       cart_ts = Some 7200, buy_ts = Some 10800\<rparr>,
      \<lparr>s_user = 1, s_item = 2, pv_ts = None, fav_ts = Some 0,
       cart_ts = None, buy_ts = None\<rparr>]"

definition full_row :: funnel_row where
  "full_row =
     \<lparr>f_item = 1, pv = 1, fav = 1, cart = 1, buy = 1,
      pv_count = 1, fav_count = 1, cart_count = 1, buy_count = 1,
      pv_to_fav_rate = Some 1, pv_to_cart_rate = Some 1, pv_to_buy_rate = Some 1,
      fav_to_cart_rate = Some 1, cart_to_buy_rate = Some 1\<rparr>"

definition no_pv_row :: funnel_row where
  "no_pv_row =
     \<lparr>f_item = 2, pv = 0, fav = 0, cart = 0, buy = 0,
      pv_count = 0, fav_count = 0, cart_count = 0, buy_count = 0,
      pv_to_fav_rate = None, pv_to_cart_rate = None, pv_to_buy_rate = None,
      fav_to_cart_rate = None, cart_to_buy_rate = None\<rparr>"

definition empty_db :: funnel_db where
  "empty_db = \<lparr>item_funnel_features_loose = None, item_funnel_features_strict = None\<rparr>"

definition funnel_demo_db :: funnel_db where
  "funnel_demo_db =
     \<lparr>item_funnel_features_loose = Some [full_row, no_pv_row],
      item_funnel_features_strict = Some [full_row, no_pv_row]\<rparr>"

text \<open>A row whose action is the label \<open>pv\<close> with a blank on each side.\<close>

definition padded_row :: "cell raw_row" where
  "padded_row = mk_row 1 1 (CStr '' pv '') (CInt 0)"

definition padded_event :: norm_event where
  "padded_event = \<lparr>user_id = 1, item_id = 1, action = Some '' pv '', ts = Some 0\<rparr>"

text \<open>A row whose action is a label in upper case.\<close>

definition upper_row :: "cell raw_row" where
  "upper_row = mk_row 1 1 (CStr ''BUY'') (CInt 0)"

definition upper_event :: norm_event where
  "upper_event = \<lparr>user_id = 1, item_id = 1, action = Some ''buy'', ts = Some 0\<rparr>"

text \<open>
  The string code of a numeric code, and the relation between a row with a numeric
  action code and the same row with the string code: the other three cells are the
  same, the first action decodes as an integer of 1..4, and the second is a string that
  is the label of that integer, is no integer and is left alone by \<open>LOWER\<close>.
\<close>

definition string_code :: "int \<Rightarrow> string" where
  "string_code n =
     (if n = 1 then ''pv'' else if n = 2 then ''fav'' else if n = 3 then ''cart'' else ''buy'')"

definition numeric_vs_string :: "'c engine \<Rightarrow> 'c raw_row \<Rightarrow> 'c raw_row \<Rightarrow> bool" where
  "numeric_vs_string E r r' =
     (user_cell r' = user_cell r \<and> item_cell r' = item_cell r \<and> ts_cell r' = ts_cell r \<and>
      (case (action_cell r, action_cell r') of
         (Some a, Some a') \<Rightarrow>
           (case try_integer E a of
              Some n \<Rightarrow> n \<in> {1, 2, 3, 4} \<and> try_integer E a' = None \<and>
                        varchar E a' = string_code n \<and> lower E (string_code n) = string_code n
            | None \<Rightarrow> False)
       | _ \<Rightarrow> False))"

text \<open>The first four rows of the demonstration table, with numeric and with string codes.\<close>

definition numeric_demo :: "cell raw_row list" where
  "numeric_demo =
     [mk_row 1 1 (CInt 1) (CInt 0),
      mk_row 1 1 (CInt 2) (CInt 3600),
      mk_row 1 1 (CInt 3) (CInt 7200),
      mk_row 1 1 (CInt 4) (CInt 10800)]"

definition string_demo :: "cell raw_row list" where
  "string_demo =
     [mk_row 1 1 (CStr ''pv'') (CInt 0),
      mk_row 1 1 (CStr ''fav'') (CInt 3600),
      mk_row 1 1 (CStr ''cart'') (CInt 7200),
      mk_row 1 1 (CStr ''buy'') (CInt 10800)]"

definition full_db :: funnel_db where
  "full_db =
     \<lparr>item_funnel_features_loose = Some [full_row],
      item_funnel_features_strict = Some [full_row]\<rparr>"

text \<open>A row whose timestamp is no number and no timestamp.\<close>

definition bad_ts_row :: "cell raw_row" where
  "bad_ts_row = mk_row 1 1 (CStr ''pv'') (CStr ''not-a-time'')"

section \<open>Concrete tables of \<open>user_behavior\<close>\<close>

definition ub_row :: "int \<Rightarrow> string \<Rightarrow> string \<Rightarrow> cell behavior_row" where
  "ub_row u b t = \<lparr>ub_user = Some (CInt u), ub_behavior = Some (CStr b), ub_ts = Some (CStr t)\<rparr>"

text \<open>One user, active on the 1st, the 2nd and the 5th of January 2024.\<close>

definition gap_demo :: "cell behavior_row list" where
  "gap_demo =
     [ub_row 1 ''pv'' ''2024-01-01 10:00:00'',
      ub_row 1 ''pv'' ''2024-01-02 10:00:00'',
      ub_row 1 ''pv'' ''2024-01-05 10:00:00'']"

text \<open>One user, active on the 1st and the 3rd of January 2024.\<close>

definition no_next_day_demo :: "cell behavior_row list" where
  "no_next_day_demo =
     [ub_row 1 ''pv'' ''2024-01-01 10:00:00'',
      ub_row 1 ''pv'' ''2024-01-03 10:00:00'']"

text \<open>One user, active on each of the five days from the 1st to the 5th of January 2024.\<close>

definition five_days_demo :: "cell behavior_row list" where
  "five_days_demo =
     [ub_row 1 ''pv'' ''2024-01-01'',
      ub_row 1 ''pv'' ''2024-01-02'',
      ub_row 1 ''pv'' ''2024-01-03'',
      ub_row 1 ''pv'' ''2024-01-04'',
      ub_row 1 ''pv'' ''2024-01-05'']"

text \<open>One user, active on the 1st of January 2024 and again on the 1st of March 2024.\<close>

definition returning_demo :: "cell behavior_row list" where
  "returning_demo =
     [ub_row 1 ''pv'' ''2024-01-01 10:00:00'',
      ub_row 1 ''pv'' ''2024-03-01 10:00:00'']"

text \<open>
  The anchor day is the 10th of March 2024. User 1 is first active on that day, users 4
  and 5 were last active 2 and 5 days before it, and user 6 was last active 19 days
  before it.
\<close>

definition segments_demo :: "cell behavior_row list" where
  "segments_demo =
     [ub_row 1 ''pv'' ''2024-03-10 10:00:00'',
      ub_row 4 ''pv'' ''2024-03-08 10:00:00'',
      ub_row 5 ''pv'' ''2024-03-05 10:00:00'',
      ub_row 6 ''pv'' ''2024-02-20 10:00:00'']"

text \<open>
  User 1 buys a second time exactly 7 days after the first purchase, user 2 exactly 8
  days after it.
\<close>

definition rebuy_demo :: "cell behavior_row list" where
  "rebuy_demo =
     [ub_row 1 ''buy'' ''2024-01-01 10:00:00'',
      ub_row 1 ''buy'' ''2024-01-08 10:00:00'',
      ub_row 2 ''buy'' ''2024-01-01 10:00:00'',
      ub_row 2 ''4'' ''2024-01-09 10:00:00'',
      ub_row 2 ''pv'' ''2024-01-02 10:00:00'']"

definition ts_of :: "int \<Rightarrow> int \<Rightarrow> int \<Rightarrow> int \<Rightarrow> int" where
  "ts_of y m d h = days_from_civil y m d * usec_per_day + h * 3600000000"

definition rebuy_demo_buys :: "(cell option \<times> int) list" where
  "rebuy_demo_buys =
     [(Some (CInt 1), ts_of 2024 1 1 10),
      (Some (CInt 1), ts_of 2024 1 8 10),
      (Some (CInt 2), ts_of 2024 1 1 10),
      (Some (CInt 2), ts_of 2024 1 9 10)]"

section \<open>The repurchase rule in the words of the spec\<close>

text \<open>
  The timestamps of the buy events of a user, and the rule: with \<open>first_ts\<close> the least
  of them, some buy event of the user is later than \<open>first_ts\<close> and at most 7 days later.
\<close>

definition user_buy_times :: "('c option \<times> int) list \<Rightarrow> 'c \<Rightarrow> int list" where
  "user_buy_times bs u = map snd (filter (\<lambda>b. fst b = Some u) bs)"

definition spec_repurchaser :: "('c option \<times> int) list \<Rightarrow> 'c \<Rightarrow> bool" where
  "spec_repurchaser bs u =
     (case user_buy_times bs u of
        [] \<Rightarrow> False
      | t # rest \<Rightarrow>
          (let first_ts = Min (set (t # rest))
           in list_ex (\<lambda>t'. first_ts < t' \<and> t' \<le> first_ts + interval_day 7) (t # rest)))"

section \<open>Properties of the funnel builder\<close>

subsection \<open>Conditions and sums\<close>

lemma sum_case_nonneg: "0 \<le> sum_case c g"
  unfolding sum_case_def by (induction g) auto

lemma sum_case_mono:
  "(\<And>s. s \<in> set g \<Longrightarrow> holds (c s) \<Longrightarrow> holds (d s)) \<Longrightarrow> sum_case c g \<le> sum_case d g"
  unfolding sum_case_def by (induction g) auto

lemma holds_sql_and: "holds (sql_and a b) = (holds a \<and> holds b)"
  unfolding holds_def by (cases "(a, b)" rule: sql_and.cases) auto

lemma holds_sql_all_Cons: "holds (sql_all (c # cs)) = (holds c \<and> holds (sql_all cs))"
  unfolding sql_all_def by (simp add: holds_sql_and)

lemma holds_sql_all_Nil: "holds (sql_all [])"
  unfolding sql_all_def holds_def by simp

lemma holds_is_not_null: "holds (is_not_null x) = (x \<noteq> None)"
  by (simp add: is_not_null_def holds_def)

lemma holds_Some: "holds (Some P) = P"
  by (simp add: holds_def)

lemma holds_sql_eq: "holds (sql_eq x (Some u)) = (x = Some u)"
  by (cases x) (simp_all add: sql_eq_def holds_def)

lemma holds_sql_eq_None: "\<not> holds (sql_eq x None)"
  by (cases x) (simp_all add: sql_eq_def holds_def)

lemma holds_sql_gt: "holds (sql_gt (Some a) (Some b)) = (a > b)"
  by (simp add: sql_gt_def holds_def)

lemma holds_sql_le: "holds (sql_le (Some a) (Some b)) = (a \<le> b)"
  by (simp add: sql_le_def holds_def)

lemma holds_sql_ge: "holds (sql_ge (Some a) (Some b)) = (a \<ge> b)"
  by (simp add: sql_ge_def holds_def)

lemma holds_sql_ge_None: "\<not> holds (sql_ge None y)" "\<not> holds (sql_ge x None)"
  by (cases y; cases x; simp add: sql_ge_def holds_def)+

lemma holds_sql_gt_None: "\<not> holds (sql_gt None y)" "\<not> holds (sql_gt x None)"
  by (cases y; cases x; simp add: sql_gt_def holds_def)+

lemmas holds_simps = holds_sql_all_Cons holds_sql_all_Nil

lemma strict_buy_cart: "strict \<noteq> 0 \<Longrightarrow> holds (buy_ok strict s) \<Longrightarrow> holds (cart_ok strict s)"
  by (simp add: buy_ok_def cart_ok_def holds_simps)

lemma strict_cart_fav: "strict \<noteq> 0 \<Longrightarrow> holds (cart_ok strict s) \<Longrightarrow> holds (fav_ok strict s)"
  by (simp add: cart_ok_def fav_ok_def holds_simps)

lemma fav_pv: "holds (fav_ok strict s) \<Longrightarrow> holds (pv_ok s)"
  by (simp add: fav_ok_def pv_ok_def holds_simps split: if_splits)

lemma buy_pv: "holds (buy_ok strict s) \<Longrightarrow> holds (pv_ok s)"
  by (simp add: buy_ok_def pv_ok_def holds_simps split: if_splits)

subsection \<open>The rows of the funnel tables\<close>

lemma select_sql_row:
  assumes "r \<in> set (select_sql strict stages)"
  obtains i where "i \<in> s_item ` set stages"
    and "r = select_group strict i (filter (\<lambda>s. s_item s = i) stages)"
  using assms unfolding select_sql_def by auto

lemma build_tables:
  assumes "build_item_funnel_features E db rows mode = Inr db'"
  shows "\<exists>evs. ub_norm E rows = Inr evs
     \<and> (mode \<in> {''both'', ''nonstrict''} \<longrightarrow>
          item_funnel_features_loose db' = Some (select_sql 0 (user_item_stage evs)))
     \<and> (mode \<in> {''both'', ''strict''} \<longrightarrow>
          item_funnel_features_strict db' = Some (select_sql 1 (user_item_stage evs)))"
  using assms unfolding build_item_funnel_features_def
  by (auto simp: Let_def split: sum.splits if_splits)

lemma strict_row_monotone:
  assumes "strict \<noteq> 0" "r \<in> set (select_sql strict stages)"
  shows "buy_count r \<le> cart_count r \<and> cart_count r \<le> fav_count r \<and> fav_count r \<le> pv_count r
       \<and> buy r \<le> cart r \<and> cart r \<le> fav r \<and> fav r \<le> pv r"
proof -
  from assms(2) obtain i g where r: "r = select_group strict i g"
    by (rule select_sql_row)
  have 1: "sum_case (buy_ok strict) g \<le> sum_case (cart_ok strict) g"
    by (rule sum_case_mono) (rule strict_buy_cart[OF assms(1)])
  have 2: "sum_case (cart_ok strict) g \<le> sum_case (fav_ok strict) g"
    by (rule sum_case_mono) (rule strict_cart_fav[OF assms(1)])
  have 3: "sum_case (fav_ok strict) g \<le> sum_case pv_ok g"
    by (rule sum_case_mono) (rule fav_pv)
  show ?thesis unfolding r by (simp add: select_group_def 1 2 3)
qed

subsection \<open>The demonstration table\<close>

lemmas ref_defs = reference_engine_def in_range_def parse_int_def is_digit_def ascii_lower_def
  char_of_eq_iff

lemma funnel_demo_ub_norm: "ub_norm reference_engine funnel_demo = Inr funnel_demo_norm"
  by (simp add: funnel_demo_def funnel_demo_norm_def mk_row_def ub_norm_row_def cast_bigint_def
      ub_norm_ts_def ub_norm_action_def ref_defs)

lemma funnel_demo_user_item_stage: "user_item_stage funnel_demo_norm = funnel_demo_stage"
  by (simp add: funnel_demo_norm_def funnel_demo_stage_def user_item_stage_def stage_events_def
      min_ts_def)

lemmas pred_defs = pv_ok_def fav_ok_def cart_ok_def buy_ok_def fav_cart_ok_def cart_buy_ok_def
  sql_all_def is_not_null_def sql_ge_def sql_gt_def holds_def

lemma funnel_demo_select_sql: "select_sql strict funnel_demo_stage = [full_row, no_pv_row]"
  by (simp add: funnel_demo_stage_def full_row_def no_pv_row_def select_sql_def select_group_def
      sum_case_def pred_defs rate_def)

lemma funnel_demo_build:
  "build_item_funnel_features reference_engine empty_db funnel_demo ''both'' = Inr funnel_demo_db"
  by (simp add: build_item_funnel_features_def funnel_demo_ub_norm funnel_demo_user_item_stage
      funnel_demo_select_sql empty_db_def funnel_demo_db_def)

subsection \<open>The strict counts are monotone\<close>

lemma strict_fav_chain:
  "holds (fav_ok 1 s) \<longleftrightarrow> (\<exists>a b. pv_ts s = Some a \<and> fav_ts s = Some b \<and> a < b)"
  by (cases "pv_ts s"; cases "fav_ts s")
    (simp_all add: fav_ok_def holds_simps holds_is_not_null holds_sql_gt holds_sql_gt_None)

lemma strict_cart_chain:
  "holds (cart_ok 1 s) \<longleftrightarrow>
     (\<exists>a b c. pv_ts s = Some a \<and> fav_ts s = Some b \<and> cart_ts s = Some c \<and> a < b \<and> b < c)"
  by (cases "pv_ts s"; cases "fav_ts s"; cases "cart_ts s")
    (simp_all add: cart_ok_def holds_simps holds_is_not_null holds_sql_gt holds_sql_gt_None)

lemma strict_buy_chain:
  "holds (buy_ok 1 s) \<longleftrightarrow>
     (\<exists>a b c d. pv_ts s = Some a \<and> fav_ts s = Some b \<and> cart_ts s = Some c \<and> buy_ts s = Some d
        \<and> a < b \<and> b < c \<and> c < d)"
  by (cases "pv_ts s"; cases "fav_ts s"; cases "cart_ts s"; cases "buy_ts s")
    (simp_all add: buy_ok_def holds_simps holds_is_not_null holds_sql_gt holds_sql_gt_None)

text \<open>
  C1. In a run that writes the strict table, every row of that table has
  \<open>buy_count \<le> cart_count \<le> fav_count \<le> pv_count\<close> (and the same for the columns
  \<open>buy\<close>, \<open>cart\<close>, \<open>fav\<close>, \<open>pv\<close>, which hold the same sums). The strict condition
  of a stage holds for a user-item pair exactly when the timestamps up to that stage are
  all present and strictly increasing.
\<close>

theorem strict_counts_monotone:
  assumes "build_item_funnel_features E db source_table mode = Inr db'"
    and "mode \<in> {''both'', ''strict''}"
  shows "(\<exists>out. item_funnel_features_strict db' = Some out \<and>
           (\<forall>r\<in>set out.
              buy_count r \<le> cart_count r \<and> cart_count r \<le> fav_count r \<and>
              fav_count r \<le> pv_count r \<and>
              buy r \<le> cart r \<and> cart r \<le> fav r \<and> fav r \<le> pv r))
       \<and> (\<forall>s. holds (fav_ok 1 s) \<longleftrightarrow>
              (\<exists>a b. pv_ts s = Some a \<and> fav_ts s = Some b \<and> a < b))
       \<and> (\<forall>s. holds (cart_ok 1 s) \<longleftrightarrow>
              (\<exists>a b c. pv_ts s = Some a \<and> fav_ts s = Some b \<and> cart_ts s = Some c
                 \<and> a < b \<and> b < c))
       \<and> (\<forall>s. holds (buy_ok 1 s) \<longleftrightarrow>
              (\<exists>a b c d. pv_ts s = Some a \<and> fav_ts s = Some b \<and> cart_ts s = Some c
                 \<and> buy_ts s = Some d \<and> a < b \<and> b < c \<and> c < d))"
proof -
  from build_tables[OF assms(1)] assms(2) obtain evs
    where "item_funnel_features_strict db' = Some (select_sql 1 (user_item_stage evs))"
    by blast
  moreover have "\<forall>r\<in>set (select_sql 1 (user_item_stage evs)).
              buy_count r \<le> cart_count r \<and> cart_count r \<le> fav_count r \<and>
              fav_count r \<le> pv_count r \<and>
              buy r \<le> cart r \<and> cart r \<le> fav r \<and> fav r \<le> pv r"
    by (intro ballI strict_row_monotone) simp_all
  ultimately have "\<exists>out. item_funnel_features_strict db' = Some out \<and>
           (\<forall>r\<in>set out.
              buy_count r \<le> cart_count r \<and> cart_count r \<le> fav_count r \<and>
              fav_count r \<le> pv_count r \<and>
              buy r \<le> cart r \<and> cart r \<le> fav r \<and> fav r \<le> pv r)"
    by blast
  with strict_fav_chain strict_cart_chain strict_buy_chain show ?thesis
    by (intro conjI allI)
qed

theorem strict_counts_monotone_witness:
  "build_item_funnel_features reference_engine empty_db funnel_demo ''both'' = Inr funnel_demo_db
   \<and> ''both'' \<in> {''both'', ''strict''}
   \<and> item_funnel_features_strict funnel_demo_db = Some [full_row, no_pv_row]
   \<and> buy_count full_row \<le> cart_count full_row \<and> cart_count full_row \<le> fav_count full_row
   \<and> fav_count full_row \<le> pv_count full_row \<and> pv_count full_row = 1"
proof -
  have m: "''both'' \<in> {''both'', ''strict''}" by simp
  have t: "item_funnel_features_strict funnel_demo_db = Some [full_row, no_pv_row]"
    by (simp add: funnel_demo_db_def)
  from strict_counts_monotone[OF funnel_demo_build m, THEN conjunct1] t
  have "buy_count full_row \<le> cart_count full_row \<and> cart_count full_row \<le> fav_count full_row
      \<and> fav_count full_row \<le> pv_count full_row"
    by auto
  moreover have "pv_count full_row = 1" by (simp add: full_row_def)
  ultimately show ?thesis using funnel_demo_build m t by blast
qed

subsection \<open>The rate from pv to buy\<close>

lemma rate_bounds: "0 \<le> a \<Longrightarrow> a \<le> b \<Longrightarrow> b \<noteq> 0 \<Longrightarrow> \<exists>q. rate a b = Some q \<and> 0 \<le> q \<and> q \<le> 1"
  by (simp add: rate_def)

lemma row_pv_to_buy_rate:
  assumes "r \<in> set (select_sql strict stages)"
  shows "0 \<le> buy_count r \<and> buy_count r \<le> pv_count r
       \<and> (pv_count r = 0 \<longrightarrow> pv_to_buy_rate r = None)
       \<and> (pv_count r \<noteq> 0 \<longrightarrow> (\<exists>q. pv_to_buy_rate r = Some q \<and> 0 \<le> q \<and> q \<le> 1))"
proof -
  from assms obtain i g where r: "r = select_group strict i g"
    by (rule select_sql_row)
  have 1: "sum_case (buy_ok strict) g \<le> sum_case pv_ok g"
    by (rule sum_case_mono) (rule buy_pv)
  have 0: "0 \<le> sum_case (buy_ok strict) g" by (rule sum_case_nonneg)
  have b: "buy_count r = sum_case (buy_ok strict) g" "pv_count r = sum_case pv_ok g"
    "pv_to_buy_rate r = rate (sum_case (buy_ok strict) g) (sum_case pv_ok g)"
    unfolding r by (simp_all add: select_group_def)
  show ?thesis unfolding b using 0 1 rate_bounds[OF 0 1] by (simp add: rate_def)
qed

text \<open>
  C2. In every row of a table that the run writes, loose or strict, \<open>pv_to_buy_rate\<close>
  is null when the pv count is zero and otherwise a number between 0 and 1; the buy
  count is at most the pv count.
\<close>

theorem pv_to_buy_rate_in_unit_interval:
  assumes "build_item_funnel_features E db source_table mode = Inr db'"
    and "(mode \<in> {''both'', ''nonstrict''} \<and> item_funnel_features_loose db' = Some out)
       \<or> (mode \<in> {''both'', ''strict''} \<and> item_funnel_features_strict db' = Some out)"
    and "r \<in> set out"
  shows "0 \<le> buy_count r \<and> buy_count r \<le> pv_count r
       \<and> (pv_count r = 0 \<longrightarrow> pv_to_buy_rate r = None)
       \<and> (pv_count r \<noteq> 0 \<longrightarrow> (\<exists>q. pv_to_buy_rate r = Some q \<and> 0 \<le> q \<and> q \<le> 1))"
proof -
  from build_tables[OF assms(1)] obtain evs
    where l: "mode \<in> {''both'', ''nonstrict''} \<Longrightarrow>
              item_funnel_features_loose db' = Some (select_sql 0 (user_item_stage evs))"
      and s: "mode \<in> {''both'', ''strict''} \<Longrightarrow>
              item_funnel_features_strict db' = Some (select_sql 1 (user_item_stage evs))"
    by blast
  from assms(2) show ?thesis
  proof
    assume a: "mode \<in> {''both'', ''nonstrict''} \<and> item_funnel_features_loose db' = Some out"
    with l have "out = select_sql 0 (user_item_stage evs)" by simp
    with assms(3) show ?thesis by (intro row_pv_to_buy_rate) simp
  next
    assume a: "mode \<in> {''both'', ''strict''} \<and> item_funnel_features_strict db' = Some out"
    with s have "out = select_sql 1 (user_item_stage evs)" by simp
    with assms(3) show ?thesis by (intro row_pv_to_buy_rate) simp
  qed
qed

theorem pv_to_buy_rate_in_unit_interval_witness:
  "build_item_funnel_features reference_engine empty_db funnel_demo ''both'' = Inr funnel_demo_db
   \<and> ''both'' \<in> {''both'', ''nonstrict''}
   \<and> item_funnel_features_loose funnel_demo_db = Some [full_row, no_pv_row]
   \<and> full_row \<in> set [full_row, no_pv_row] \<and> no_pv_row \<in> set [full_row, no_pv_row]
   \<and> pv_count full_row = 1 \<and> pv_to_buy_rate full_row = Some 1
   \<and> pv_count no_pv_row = 0 \<and> pv_to_buy_rate no_pv_row = None"
proof -
  have t: "''both'' \<in> {''both'', ''nonstrict''} \<and>
           item_funnel_features_loose funnel_demo_db = Some [full_row, no_pv_row]"
    by (simp add: funnel_demo_db_def)
  have m1: "full_row \<in> set [full_row, no_pv_row]" and m2: "no_pv_row \<in> set [full_row, no_pv_row]"
    by simp_all
  have c: "pv_count full_row = 1" "pv_count no_pv_row = 0" "pv_to_buy_rate full_row = Some 1"
    by (simp_all add: full_row_def no_pv_row_def)
  from pv_to_buy_rate_in_unit_interval[OF funnel_demo_build disjI1[OF t] m2] c
  have "pv_to_buy_rate no_pv_row = None" by simp
  then show ?thesis using funnel_demo_build t m1 m2 c by simp
qed

subsection \<open>Items without a pv event\<close>

lemma min_agg_None: "min_agg xs = None \<longleftrightarrow> (\<forall>x\<in>set xs. x = None)"
  by (induction xs rule: min_agg.induct) (auto split: option.splits)

lemma user_item_stage_items:
  "s_item ` set (user_item_stage evs) = item_id ` set (stage_events evs)"
  unfolding user_item_stage_def by (force simp: Let_def)

lemma user_item_stage_pv:
  assumes "s \<in> set (user_item_stage evs)" "pv_ts s \<noteq> None"
  shows "\<exists>e\<in>set (stage_events evs). item_id e = s_item s \<and> action e = Some ''pv''"
proof -
  from assms(1) obtain u i where s: "s_item s = i"
    "pv_ts s = min_ts ''pv'' (filter (\<lambda>e. user_id e = u \<and> item_id e = i) (stage_events evs))"
    unfolding user_item_stage_def by (auto simp: Let_def)
  from assms(2) show ?thesis
    unfolding s min_ts_def min_agg_None by (auto split: if_splits)
qed

lemma select_sql_items: "f_item ` set (select_sql strict stages) = s_item ` set stages"
  unfolding select_sql_def by (force simp: select_group_def)

lemma sum_case_zero: "(\<And>s. s \<in> set g \<Longrightarrow> \<not> holds (c s)) \<Longrightarrow> sum_case c g = 0"
  unfolding sum_case_def by (induction g) auto

lemma cart_pv: "holds (cart_ok strict s) \<Longrightarrow> holds (pv_ok s)"
  by (simp add: cart_ok_def pv_ok_def holds_simps split: if_splits)

lemma zero_pv_row:
  assumes "r \<in> set (select_sql strict stages)"
    and "\<And>s. s \<in> set stages \<Longrightarrow> s_item s = f_item r \<Longrightarrow> pv_ts s = None"
  shows "pv r = 0 \<and> fav r = 0 \<and> cart r = 0 \<and> buy r = 0 \<and> pv_to_fav_rate r = None
       \<and> pv_to_cart_rate r = None \<and> pv_to_buy_rate r = None"
proof -
  from assms(1) obtain i where r: "r = select_group strict i (filter (\<lambda>s. s_item s = i) stages)"
    by (rule select_sql_row)
  let ?g = "filter (\<lambda>s. s_item s = i) stages"
  have i: "f_item r = i" unfolding r by (simp add: select_group_def)
  have n: "\<not> holds (pv_ok s)" if "s \<in> set ?g" for s
    using that assms(2)[of s] i by (simp add: pv_ok_def holds_def is_not_null_def)
  have 0: "sum_case pv_ok ?g = 0" by (rule sum_case_zero) (rule n)
  have 1: "sum_case (fav_ok strict) ?g = 0"
    by (rule sum_case_zero) (use n fav_pv in blast)
  have 2: "sum_case (cart_ok strict) ?g = 0"
    by (rule sum_case_zero) (use n cart_pv in blast)
  have 3: "sum_case (buy_ok strict) ?g = 0"
    by (rule sum_case_zero) (use n buy_pv in blast)
  show ?thesis unfolding r by (simp add: select_group_def 0 1 2 3 rate_def)
qed

text \<open>
  C4, as the code has it. The funnel tables have a row for every item that has a
  normalized event with a recognized action, with or without a pv event; the row of
  an item without pv events has the counts 0 and null rates from pv.
\<close>

theorem zero_pv_item_has_row:
  assumes "ub_norm E source_table = Inr evs"
    and "build_item_funnel_features E db source_table mode = Inr db'"
    and "(mode \<in> {''both'', ''nonstrict''} \<and> item_funnel_features_loose db' = Some out)
       \<or> (mode \<in> {''both'', ''strict''} \<and> item_funnel_features_strict db' = Some out)"
  shows "f_item ` set out = item_id ` set (stage_events evs)
       \<and> (\<forall>r\<in>set out.
             (\<forall>e\<in>set (stage_events evs). item_id e = f_item r \<longrightarrow> action e \<noteq> Some ''pv'') \<longrightarrow>
             pv r = 0 \<and> fav r = 0 \<and> cart r = 0 \<and> buy r = 0 \<and> pv_to_fav_rate r = None
             \<and> pv_to_cart_rate r = None \<and> pv_to_buy_rate r = None)"
proof -
  from build_tables[OF assms(2)] assms(1) have
    l: "mode \<in> {''both'', ''nonstrict''} \<Longrightarrow>
          item_funnel_features_loose db' = Some (select_sql 0 (user_item_stage evs))"
    and s: "mode \<in> {''both'', ''strict''} \<Longrightarrow>
          item_funnel_features_strict db' = Some (select_sql 1 (user_item_stage evs))"
    by simp_all
  from assms(3) l s obtain strict where out: "out = select_sql strict (user_item_stage evs)"
    by (elim disjE conjE) simp_all
  have a: "f_item ` set out = item_id ` set (stage_events evs)"
    unfolding out by (simp only: select_sql_items user_item_stage_items)
  have b: "pv r = 0 \<and> fav r = 0 \<and> cart r = 0 \<and> buy r = 0 \<and> pv_to_fav_rate r = None
           \<and> pv_to_cart_rate r = None \<and> pv_to_buy_rate r = None"
    if r: "r \<in> set out"
      and n: "\<forall>e\<in>set (stage_events evs). item_id e = f_item r \<longrightarrow> action e \<noteq> Some ''pv''" for r
  proof (rule zero_pv_row)
    show "r \<in> set (select_sql strict (user_item_stage evs))" using r out by simp
  next
    fix s assume "s \<in> set (user_item_stage evs)" "s_item s = f_item r"
    with n user_item_stage_pv[of s evs] show "pv_ts s = None" by fastforce
  qed
  from a b show ?thesis by blast
qed

theorem zero_pv_item_has_row_witness:
  "ub_norm reference_engine funnel_demo = Inr funnel_demo_norm
   \<and> build_item_funnel_features reference_engine empty_db funnel_demo ''both'' = Inr funnel_demo_db
   \<and> ''both'' \<in> {''both'', ''strict''}
   \<and> item_funnel_features_strict funnel_demo_db = Some [full_row, no_pv_row]
   \<and> f_item ` set [full_row, no_pv_row] = item_id ` set (stage_events funnel_demo_norm)
   \<and> no_pv_row \<in> set [full_row, no_pv_row]
   \<and> filter (\<lambda>e. item_id e = f_item no_pv_row \<and> action e = Some ''pv'')
        (stage_events funnel_demo_norm) = []
   \<and> pv no_pv_row = 0 \<and> pv_to_buy_rate no_pv_row = None"
proof -
  have t: "''both'' \<in> {''both'', ''strict''} \<and>
           item_funnel_features_strict funnel_demo_db = Some [full_row, no_pv_row]"
    by (simp add: funnel_demo_db_def)
  have m: "no_pv_row \<in> set [full_row, no_pv_row]" by simp
  have f: "filter (\<lambda>e. item_id e = f_item no_pv_row \<and> action e = Some ''pv'')
        (stage_events funnel_demo_norm) = []"
    by (simp add: stage_events_def funnel_demo_norm_def no_pv_row_def)
  then have n: "\<forall>e\<in>set (stage_events funnel_demo_norm).
      item_id e = f_item no_pv_row \<longrightarrow> action e \<noteq> Some ''pv''"
    by (simp add: filter_empty_conv)
  note w = zero_pv_item_has_row[OF funnel_demo_ub_norm funnel_demo_build disjI2[OF t]]
  from w have "f_item ` set [full_row, no_pv_row] = item_id ` set (stage_events funnel_demo_norm)"
    by (rule conjunct1)
  moreover from w m n have "pv no_pv_row = 0 \<and> pv_to_buy_rate no_pv_row = None" by blast
  ultimately show ?thesis using funnel_demo_ub_norm funnel_demo_build t m f by simp
qed

text \<open>
  C4, as the spec has it, fails: item 2 of the demonstration table has no pv row at all
  and has a row in both funnel tables.
\<close>

theorem zero_pv_item_excluded_counterexample:
  "build_item_funnel_features reference_engine empty_db funnel_demo ''both'' = Inr funnel_demo_db
   \<and> filter (\<lambda>r. item_cell r = Some (CInt 2) \<and> action_cell r = Some (CStr ''pv'')) funnel_demo = []
   \<and> item_funnel_features_loose funnel_demo_db = Some [full_row, no_pv_row]
   \<and> item_funnel_features_strict funnel_demo_db = Some [full_row, no_pv_row]
   \<and> f_item no_pv_row = 2 \<and> pv no_pv_row = 0"
  using funnel_demo_build
  by (simp add: funnel_demo_def mk_row_def funnel_demo_db_def no_pv_row_def)

subsection \<open>Decoding the action\<close>

lemma ub_norm_row_action:
  assumes "action_cell r = Some a" "ub_norm_row E r = Inr (Some ev)"
  shows "action ev = ub_norm_action E a \<and> ts ev \<noteq> None"
  using assms unfolding ub_norm_row_def ub_norm_ts_def
  by (auto split: option.splits sum.splits)

lemma ub_norm_row_any_action:
  assumes "action_cell r = Some a" "ub_norm_row E r = Inr (Some ev)"
  shows "ub_norm_row E (r\<lparr>action_cell := Some a'\<rparr>) = Inr (Some (ev\<lparr>action := ub_norm_action E a'\<rparr>))"
  using assms unfolding ub_norm_row_def
  by (auto split: option.splits sum.splits)

text \<open>
  C6, as the code has it. For a row that the view keeps, the integer decode of the
  action comes first: 1, 2, 3, 4 give the four labels and the event is kept, any other
  integer gives no event. An action that is no integer is lower-cased, not trimmed, and
  the event is kept exactly when the lower-cased string is one of the four labels.
  Whatever the action is, decoding it raises no error.
\<close>

theorem action_decoding:
  assumes "action_cell r = Some a" and "ub_norm_row E r = Inr (Some ev)"
  shows "(stage_events [ev] = [ev] \<or> stage_events [ev] = [])
       \<and> (stage_events [ev] = [ev] \<longleftrightarrow>
            (case try_integer E a of
               Some n \<Rightarrow> n \<in> {1, 2, 3, 4}
             | None \<Rightarrow> lower E (varchar E a) \<in> {''pv'', ''fav'', ''cart'', ''buy''}))
       \<and> (try_integer E a = Some 1 \<longrightarrow> action ev = Some ''pv'')
       \<and> (try_integer E a = Some 2 \<longrightarrow> action ev = Some ''fav'')
       \<and> (try_integer E a = Some 3 \<longrightarrow> action ev = Some ''cart'')
       \<and> (try_integer E a = Some 4 \<longrightarrow> action ev = Some ''buy'')
       \<and> (try_integer E a = None \<longrightarrow> action ev = Some (lower E (varchar E a)))
       \<and> (\<forall>a'. \<exists>ev'. ub_norm_row E (r\<lparr>action_cell := Some a'\<rparr>) = Inr (Some ev'))"
proof -
  from ub_norm_row_action[OF assms] have a: "action ev = ub_norm_action E a" and t: "ts ev \<noteq> None"
    by simp_all
  have 1: "stage_events [ev] = [ev] \<or> stage_events [ev] = []"
    by (simp add: stage_events_def)
  have 2: "stage_events [ev] = [ev] \<longleftrightarrow>
            (case try_integer E a of
               Some n \<Rightarrow> n \<in> {1, 2, 3, 4}
             | None \<Rightarrow> lower E (varchar E a) \<in> {''pv'', ''fav'', ''cart'', ''buy''})"
    using t by (auto simp: stage_events_def a ub_norm_action_def split: option.splits)
  have 3: "try_integer E a = Some 1 \<longrightarrow> action ev = Some ''pv''"
    "try_integer E a = Some 2 \<longrightarrow> action ev = Some ''fav''"
    "try_integer E a = Some 3 \<longrightarrow> action ev = Some ''cart''"
    "try_integer E a = Some 4 \<longrightarrow> action ev = Some ''buy''"
    "try_integer E a = None \<longrightarrow> action ev = Some (lower E (varchar E a))"
    by (simp_all add: a ub_norm_action_def)
  have 4: "\<forall>a'. \<exists>ev'. ub_norm_row E (r\<lparr>action_cell := Some a'\<rparr>) = Inr (Some ev')"
    using ub_norm_row_any_action[OF assms] by blast
  from 1 2 3 4 show ?thesis by blast
qed

lemma upper_row_norm: "ub_norm_row reference_engine upper_row = Inr (Some upper_event)"
  by (simp add: upper_row_def upper_event_def mk_row_def ub_norm_row_def cast_bigint_def
      ub_norm_ts_def ub_norm_action_def ref_defs)

theorem action_decoding_witness:
  "action_cell upper_row = Some (CStr ''BUY'')
   \<and> ub_norm_row reference_engine upper_row = Inr (Some upper_event)
   \<and> try_integer reference_engine (CStr ''BUY'') = None
   \<and> action upper_event = Some (lower reference_engine (varchar reference_engine (CStr ''BUY'')))
   \<and> action upper_event = Some ''buy''
   \<and> stage_events [upper_event] = [upper_event]"
proof -
  have c: "action_cell upper_row = Some (CStr ''BUY'')"
    by (simp add: upper_row_def mk_row_def)
  have n: "try_integer reference_engine (CStr ''BUY'') = None"
    by (simp add: ref_defs)
  have l: "lower reference_engine (varchar reference_engine (CStr ''BUY'')) = ''buy''"
    by (simp add: ref_defs)
  note w = action_decoding[OF c upper_row_norm]
  from w n have 1: "action upper_event = Some (lower reference_engine (varchar reference_engine (CStr ''BUY'')))"
    by blast
  from w n l have 2: "stage_events [upper_event] = [upper_event]"
    by simp
  from c upper_row_norm n 1 2 l show ?thesis by simp
qed

text \<open>
  C6, as the spec has it, fails: the action \<open>pv\<close> with a blank on each side is one of
  the four labels after trimming, it is no integer, and the row gives no event; the
  funnel tables of a run on this row alone are empty.
\<close>

theorem padded_action_counterexample:
  "py_lower (py_strip '' pv '') = ''pv''
   \<and> try_integer reference_engine (CStr '' pv '') = None
   \<and> ub_norm_row reference_engine padded_row = Inr (Some padded_event)
   \<and> stage_events [padded_event] = []
   \<and> build_item_funnel_features reference_engine empty_db [padded_row] ''both''
       = Inr \<lparr>item_funnel_features_loose = Some [], item_funnel_features_strict = Some []\<rparr>"
proof -
  have 1: "py_lower (py_strip '' pv '') = ''pv''"
    by (simp add: py_lower_def py_strip_def py_isspace_def py_lower_char_def)
  have 2: "try_integer reference_engine (CStr '' pv '') = None"
    by (simp add: ref_defs)
  have 3: "ub_norm_row reference_engine padded_row = Inr (Some padded_event)"
    by (simp add: padded_row_def padded_event_def mk_row_def ub_norm_row_def cast_bigint_def
      ub_norm_ts_def ub_norm_action_def ref_defs)
  have 4: "stage_events [padded_event] = []"
    by (simp add: stage_events_def padded_event_def)
  have 5: "build_item_funnel_features reference_engine empty_db [padded_row] ''both''
       = Inr \<lparr>item_funnel_features_loose = Some [], item_funnel_features_strict = Some []\<rparr>"
    by (simp add: build_item_funnel_features_def 3 user_item_stage_def 4 select_sql_def empty_db_def)
  from 1 2 3 4 5 show ?thesis by simp
qed

subsection \<open>Numeric and string codes\<close>

lemma numeric_vs_string_row:
  assumes "numeric_vs_string E r r'"
  shows "ub_norm_row E r = ub_norm_row E r'"
proof -
  from assms obtain a a' n where c: "action_cell r = Some a" "action_cell r' = Some a'"
    and n: "try_integer E a = Some n" "n \<in> {1, 2, 3, 4}"
    and s: "try_integer E a' = None" "varchar E a' = string_code n"
      "lower E (string_code n) = string_code n"
    and o: "user_cell r' = user_cell r" "item_cell r' = item_cell r" "ts_cell r' = ts_cell r"
    unfolding numeric_vs_string_def by (auto split: option.splits)
  have "ub_norm_action E a = Some (string_code n)"
    using n by (auto simp: ub_norm_action_def string_code_def)
  moreover have "ub_norm_action E a' = Some (string_code n)"
    using s by (simp add: ub_norm_action_def)
  ultimately show ?thesis
    unfolding ub_norm_row_def c o by (simp split: option.splits sum.splits)
qed

lemma numeric_vs_string_ub_norm:
  "list_all2 (numeric_vs_string E) t t' \<Longrightarrow> ub_norm E t = ub_norm E t'"
  by (induction rule: list_all2_induct)
    (simp_all add: numeric_vs_string_row split: sum.splits option.splits)

text \<open>
  C8. A table whose action column holds the numeric codes 1..4 and the same table
  with the string codes \<open>pv\<close>, \<open>fav\<close>, \<open>cart\<close>, \<open>buy\<close> give the same result of the
  builder, in every mode: the same tables, or the same error.
\<close>

theorem numeric_and_string_codes_agree:
  assumes "list_all2 (numeric_vs_string E) numeric_table string_table"
  shows "build_item_funnel_features E db numeric_table mode
       = build_item_funnel_features E db string_table mode"
  unfolding build_item_funnel_features_def
  by (simp only: numeric_vs_string_ub_norm[OF assms])

lemma string_demo_build:
  "build_item_funnel_features reference_engine empty_db string_demo ''both'' = Inr full_db"
proof -
  have 1: "ub_norm reference_engine string_demo = Inr (take 4 funnel_demo_norm)"
    by (simp add: string_demo_def funnel_demo_norm_def mk_row_def ub_norm_row_def cast_bigint_def
      ub_norm_ts_def ub_norm_action_def ref_defs)
  have 2: "user_item_stage (take 4 funnel_demo_norm) = take (Suc 0) funnel_demo_stage"
    by (simp add: funnel_demo_norm_def funnel_demo_stage_def user_item_stage_def stage_events_def
      min_ts_def)
  have 3: "select_sql strict (take (Suc 0) funnel_demo_stage) = [full_row]" for strict
    by (simp add: funnel_demo_stage_def full_row_def select_sql_def select_group_def
      sum_case_def pred_defs rate_def)
  show ?thesis
    by (simp add: build_item_funnel_features_def 1 2 3 empty_db_def full_db_def Let_def)
qed

theorem numeric_and_string_codes_agree_witness:
  "list_all2 (numeric_vs_string reference_engine) numeric_demo string_demo
   \<and> build_item_funnel_features reference_engine empty_db numeric_demo ''both''
     = build_item_funnel_features reference_engine empty_db string_demo ''both''
   \<and> build_item_funnel_features reference_engine empty_db numeric_demo ''both'' = Inr full_db"
proof -
  have r: "list_all2 (numeric_vs_string reference_engine) numeric_demo string_demo"
    by (simp add: numeric_demo_def string_demo_def mk_row_def numeric_vs_string_def
        string_code_def ref_defs)
  from numeric_and_string_codes_agree[OF r] string_demo_build r show ?thesis
    by simp
qed

subsection \<open>A timestamp that does not decode\<close>

lemma ub_norm_append:
  "ub_norm E (t @ t') =
     (case ub_norm E t of
        Inl e \<Rightarrow> Inl e
      | Inr evs \<Rightarrow> (case ub_norm E t' of Inl e \<Rightarrow> Inl e | Inr evs' \<Rightarrow> Inr (evs @ evs')))"
  by (induction t) (simp_all split: sum.splits option.splits)

text \<open>
  C9 on the code. The timestamp \<open>not-a-time\<close> is no number and no timestamp. The
  decoder of \<open>merchant.py\<close> gives \<open>NULL\<close> for it, and its queries drop the row. The
  funnel builder raises a conversion error on the one-row table, and on the demonstration
  table with this row added, instead of dropping the row.
\<close>

theorem bad_timestamp_raises_in_builder:
  "ts_expr reference_engine (Some (CStr ''not-a-time'')) = None
   \<and> build_item_funnel_features reference_engine empty_db [bad_ts_row] ''both''
       = Inl ConversionError
   \<and> build_item_funnel_features reference_engine empty_db (funnel_demo @ [bad_ts_row]) ''both''
       = Inl ConversionError"
proof -
  have 1: "ts_expr reference_engine (Some (CStr ''not-a-time'')) = None"
    by (simp add: ts_expr_def ref_defs ref_strptime_def date_and_time_def parse_date_def)
  have 2: "ub_norm_row reference_engine bad_ts_row = Inl ConversionError"
    by (simp add: bad_ts_row_def mk_row_def ub_norm_row_def cast_bigint_def ub_norm_ts_def
        cast_timestamp_def ref_defs date_and_time_def parse_date_def)
  have 3: "ub_norm reference_engine [bad_ts_row] = Inl ConversionError"
    by (simp add: 2)
  have 4: "ub_norm reference_engine (funnel_demo @ [bad_ts_row]) = Inl ConversionError"
    by (simp add: ub_norm_append funnel_demo_ub_norm 2)
  show ?thesis by (simp add: 1 2 4 build_item_funnel_features_def)
qed

section \<open>Properties of the merchant metrics\<close>

subsection \<open>The day of the D1 retention\<close>

lemmas ts_defs = ts_expr_def ref_strptime_def date_and_time_def parse_date_def parse_hms_def
  parse_hour_def days_from_civil_def days_in_month_def usec_per_day_def date_def

lemmas d1_defs = d1_retention_def ret_def left_join_next_day_def sql_all_def sql_eq_def
  sql_gt_def holds_def rate_def

lemma gap_demo_day_users:
  "day_users reference_engine gap_demo =
     [(days_from_civil 2024 1 1, Some (CInt 1)), (days_from_civil 2024 1 2, Some (CInt 1)),
      (days_from_civil 2024 1 5, Some (CInt 1))]"
  by (simp add: day_users_def gap_demo_def ub_row_def List.map_filter_def ts_defs ref_defs)

lemma no_next_day_demo_day_users:
  "day_users reference_engine no_next_day_demo =
     [(days_from_civil 2024 1 1, Some (CInt 1)), (days_from_civil 2024 1 3, Some (CInt 1))]"
  by (simp add: day_users_def no_next_day_demo_def ub_row_def List.map_filter_def ts_defs ref_defs)

lemma five_days_demo_day_users:
  "day_users reference_engine five_days_demo =
     [(days_from_civil 2024 1 1, Some (CInt 1)), (days_from_civil 2024 1 2, Some (CInt 1)),
      (days_from_civil 2024 1 3, Some (CInt 1)), (days_from_civil 2024 1 4, Some (CInt 1)),
      (days_from_civil 2024 1 5, Some (CInt 1))]"
  by (simp add: day_users_def five_days_demo_def ub_row_def List.map_filter_def ts_defs ref_defs)

text \<open>
  The scenario of the spec: on the five days from the 1st to the 5th of January 2024 the
  query reports the 4th.
\<close>

lemma five_days_d1_retention:
  "d1_retention reference_engine five_days_demo =
     Some \<lparr>d1_day = days_from_civil 2024 1 4, active_users = 1, retained_users = 1,
           d1_rate = Some 1\<rparr>"
  by (simp add: d1_defs five_days_demo_day_users days_from_civil_def)

text \<open>
  C3 on the code. The user is active on the 1st, the 2nd and the 5th of January 2024:
  the greatest day whose next day is in the data is the 1st, and the query reports the
  2nd, the greatest day below the last one, with nobody retained. On the 1st and the 3rd
  no day has its next day in the data, and the query reports the 1st instead of nothing.
\<close>

theorem d1_retention_day_without_next_day:
  "map fst (day_users reference_engine gap_demo)
     = [days_from_civil 2024 1 1, days_from_civil 2024 1 2, days_from_civil 2024 1 5]
   \<and> d1_retention reference_engine gap_demo =
       Some \<lparr>d1_day = days_from_civil 2024 1 2, active_users = 1, retained_users = 0,
             d1_rate = Some 0\<rparr>
   \<and> map fst (day_users reference_engine no_next_day_demo)
     = [days_from_civil 2024 1 1, days_from_civil 2024 1 3]
   \<and> d1_retention reference_engine no_next_day_demo =
       Some \<lparr>d1_day = days_from_civil 2024 1 1, active_users = 1, retained_users = 0,
             d1_rate = Some 0\<rparr>"
proof -
  have 1: "d1_retention reference_engine gap_demo =
       Some \<lparr>d1_day = days_from_civil 2024 1 2, active_users = 1, retained_users = 0,
             d1_rate = Some 0\<rparr>"
    by (simp add: d1_defs gap_demo_day_users days_from_civil_def)
  have 2: "d1_retention reference_engine no_next_day_demo =
       Some \<lparr>d1_day = days_from_civil 2024 1 1, active_users = 1, retained_users = 0,
             d1_rate = Some 0\<rparr>"
    by (simp add: d1_defs no_next_day_demo_day_users days_from_civil_def)
  show ?thesis
    by (simp only: 1 2 gap_demo_day_users no_next_day_demo_day_users list.map fst_conv simp_thms)
qed

subsection \<open>The first day of a user\<close>

lemmas seg_defs = seg_def agg_def anchor_day_def segment_case_def sql_all_def sql_eq_def
  sql_gt_def sql_ge_def holds_def sum_case_def Let_def

lemma returning_demo_seg_e:
  "seg_e reference_engine returning_demo =
     [(Some (CInt 1), days_from_civil 2024 1 1), (Some (CInt 1), days_from_civil 2024 3 1)]"
  by (simp add: seg_e_def returning_demo_def ub_row_def List.map_filter_def ts_defs ref_defs)

text \<open>
  C5 on the code. The user is first active on the 1st of January 2024 and again on the
  1st of March, which is the anchor day. The first day that \<open>agg\<close> computes is the
  least day of the 30 days before the anchor, the 1st of March, and the user is
  classified as new.
\<close>

theorem returning_user_classified_new:
  "min_agg (map (\<lambda>x. Some (snd x)) (seg_e reference_engine returning_demo))
     = Some (days_from_civil 2024 1 1)
   \<and> anchor_day (seg_e reference_engine returning_demo) = Some (days_from_civil 2024 3 1)
   \<and> map first_day (agg (seg_e reference_engine returning_demo)) = [Some (days_from_civil 2024 3 1)]
   \<and> seg reference_engine returning_demo = [(Some (CInt 1), ''new'')]
   \<and> segment_sql reference_engine returning_demo (Some ''new'') = [Some (CInt 1)]"
proof -
  have 1: "min_agg (map (\<lambda>x. Some (snd x)) (seg_e reference_engine returning_demo))
     = Some (days_from_civil 2024 1 1)"
    by (simp add: returning_demo_seg_e days_from_civil_def)
  have 2: "anchor_day (seg_e reference_engine returning_demo) = Some (days_from_civil 2024 3 1)"
    by (simp add: returning_demo_seg_e days_from_civil_def anchor_day_def)
  have 3: "map first_day (agg (seg_e reference_engine returning_demo))
     = [Some (days_from_civil 2024 3 1)]"
    by (simp add: returning_demo_seg_e days_from_civil_def seg_defs)
  have 4: "seg reference_engine returning_demo = [(Some (CInt 1), ''new'')]"
    by (simp add: returning_demo_seg_e days_from_civil_def seg_defs)
  have 5: "segment_name (Some ''new'') = ''new''"
    by (simp add: segment_name_def SEG_ZH_keys_def py_lower_def py_strip_def py_isspace_def
        py_lower_char_def)
  have 6: "segment_sql reference_engine returning_demo (Some ''new'') = [Some (CInt 1)]"
    by (simp add: segment_sql_def 4 5)
  from 1 2 3 4 6 show ?thesis by simp
qed

subsection \<open>Segment names and the export limit\<close>

lemma segment_name_warm: "segment_name (Some ''warm'') = ''warm''"
  by (simp add: segment_name_def SEG_ZH_keys_def py_lower_def py_strip_def py_isspace_def
      py_lower_char_def)

lemma export_limit_range: "1 \<le> export_limit limit \<and> export_limit limit \<le> 200000"
  by (simp add: export_limit_def)

lemma export_limit_cases:
  "export_limit limit = (if limit < 1 then 1 else if 200000 < limit then 200000 else limit)"
  by (simp add: export_limit_def)

text \<open>
  The \<open>CASE\<close> of \<open>seg\<close> gives \<open>warm\<close> exactly for a user whose first day is not the
  anchor day and whose last day is before the anchor day and at most 7 days before it.
\<close>

lemma segment_case_warm:
  "segment_case anchor r = ''warm'' \<longleftrightarrow>
     (\<exists>a l. anchor = Some a \<and> last_day r = Some l \<and> first_day r \<noteq> Some a
        \<and> l < a \<and> a - 7 \<le> l)"
  by (cases anchor; cases "last_day r"; cases "first_day r")
    (auto simp: segment_case_def holds_simps holds_sql_eq holds_sql_eq_None holds_Some
       holds_sql_gt holds_sql_gt_None holds_sql_ge holds_sql_ge_None)

lemma warm_rows:
  "map fst (filter (\<lambda>x. snd x = ''warm'') (seg E tbl))
     = map a_user (filter (\<lambda>r. segment_case (anchor_day (seg_e E tbl)) r = ''warm'')
                          (agg (seg_e E tbl)))"
  by (simp add: seg_def Let_def filter_map comp_def)

text \<open>
  C10. A segment argument that, trimmed and lower-cased, is none of \<open>new\<close>, \<open>active\<close>,
  \<open>warm\<close>, \<open>dormant\<close> (the empty string and a missing argument are such arguments) is
  replaced by \<open>warm\<close>, with no error: the segment query returns the users of the
  segment \<open>warm\<close>, who are the users of \<open>agg\<close> whose first day is not the anchor day
  and whose last day is before the anchor day and at most 7 days before it, and the
  export returns the first rows of that result, as many as the limit allows. The limit
  of the export is the requested one when that is between 1 and 200000, 1 when it is
  smaller and 200000 when it is greater.
\<close>

theorem unknown_segment_is_warm:
  assumes "py_lower (py_strip (case segment of None \<Rightarrow> [] | Some s \<Rightarrow> s))
             \<notin> {''new'', ''active'', ''warm'', ''dormant''}"
  shows "segment_name segment = ''warm''
       \<and> segment_sql E tbl segment = segment_sql E tbl (Some ''warm'')
       \<and> segment_sql E tbl segment = map fst (filter (\<lambda>x. snd x = ''warm'') (seg E tbl))
       \<and> segment_sql E tbl segment =
           map a_user
             (filter (\<lambda>r. \<exists>a l. anchor_day (seg_e E tbl) = Some a \<and> last_day r = Some l
                              \<and> first_day r \<noteq> Some a \<and> l < a \<and> a - 7 \<le> l)
                (agg (seg_e E tbl)))
       \<and> action_export_users E tbl segment limit = action_export_users E tbl (Some ''warm'') limit
       \<and> action_export_users E tbl segment limit
           = take (nat (export_limit limit))
               (map fst (filter (\<lambda>x. snd x = ''warm'') (seg E tbl)))
       \<and> length (action_export_users E tbl segment limit)
           = min (nat (export_limit limit))
               (length (filter (\<lambda>x. snd x = ''warm'') (seg E tbl)))
       \<and> export_limit limit
           = (if limit < 1 then 1 else if 200000 < limit then 200000 else limit)
       \<and> 1 \<le> export_limit limit \<and> export_limit limit \<le> 200000
       \<and> int (length (action_export_users E tbl segment limit)) \<le> export_limit limit"
proof -
  let ?warm = "map fst (filter (\<lambda>x. snd x = ''warm'') (seg E tbl))"
  have n: "segment_name segment = ''warm''"
    using assms by (simp add: segment_name_def SEG_ZH_keys_def Let_def)
  have s: "segment_sql E tbl segment = segment_sql E tbl (Some ''warm'')"
    by (simp add: segment_sql_def n segment_name_warm)
  have w: "segment_sql E tbl segment = ?warm"
    by (simp add: segment_sql_def n)
  have r: "segment_sql E tbl segment =
           map a_user
             (filter (\<lambda>r. \<exists>a l. anchor_day (seg_e E tbl) = Some a \<and> last_day r = Some l
                              \<and> first_day r \<noteq> Some a \<and> l < a \<and> a - 7 \<le> l)
                (agg (seg_e E tbl)))"
    unfolding w warm_rows segment_case_warm ..
  have e: "action_export_users E tbl segment limit = action_export_users E tbl (Some ''warm'') limit"
    by (simp add: action_export_users_def s)
  have t: "action_export_users E tbl segment limit = take (nat (export_limit limit)) ?warm"
    by (simp add: action_export_users_def w)
  have m: "length (action_export_users E tbl segment limit)
           = min (nat (export_limit limit)) (length (filter (\<lambda>x. snd x = ''warm'') (seg E tbl)))"
    unfolding t by (simp add: min.commute)
  have l: "int (length (action_export_users E tbl segment limit)) \<le> export_limit limit"
    using export_limit_range[of limit] unfolding m by (auto simp: min_def)
  from n s w r e t m l export_limit_cases[of limit] export_limit_range[of limit]
  show ?thesis by (intro conjI) simp_all
qed

lemma segments_demo_seg:
  "seg reference_engine segments_demo =
     [(Some (CInt 1), ''new''), (Some (CInt 4), ''warm''), (Some (CInt 5), ''warm''),
      (Some (CInt 6), ''dormant'')]"
proof -
  have e: "seg_e reference_engine segments_demo =
     [(Some (CInt 1), days_from_civil 2024 3 10), (Some (CInt 4), days_from_civil 2024 3 8),
      (Some (CInt 5), days_from_civil 2024 3 5), (Some (CInt 6), days_from_civil 2024 2 20)]"
    by (simp add: seg_e_def segments_demo_def ub_row_def List.map_filter_def ts_defs ref_defs)
  show ?thesis by (simp add: e days_from_civil_def seg_defs)
qed

theorem unknown_segment_is_warm_witness:
  "py_lower (py_strip (case Some '' VIP '' of None \<Rightarrow> [] | Some s \<Rightarrow> s))
      \<notin> {''new'', ''active'', ''warm'', ''dormant''}
   \<and> py_lower (py_strip (case None of None \<Rightarrow> [] | Some s \<Rightarrow> s))
      \<notin> {''new'', ''active'', ''warm'', ''dormant''}
   \<and> segment_name (Some '' VIP '') = ''warm''
   \<and> segment_name None = ''warm''
   \<and> segment_sql reference_engine segments_demo (Some '' VIP '') = [Some (CInt 4), Some (CInt 5)]
   \<and> segment_sql reference_engine segments_demo None = [Some (CInt 4), Some (CInt 5)]
   \<and> action_export_users reference_engine segments_demo (Some '' VIP '') 20000
      = [Some (CInt 4), Some (CInt 5)]
   \<and> action_export_users reference_engine segments_demo (Some '' VIP '') 1 = [Some (CInt 4)]
   \<and> action_export_users reference_engine segments_demo (Some '' VIP '') 0 = [Some (CInt 4)]
   \<and> action_export_users reference_engine segments_demo None 1000000
      = [Some (CInt 4), Some (CInt 5)]
   \<and> export_limit 20000 = 20000 \<and> export_limit 1 = 1 \<and> export_limit 200000 = 200000
   \<and> export_limit 1000000 = 200000 \<and> export_limit 0 = 1 \<and> export_limit (- 5) = 1"
proof -
  have 1: "py_lower (py_strip (case Some '' VIP '' of None \<Rightarrow> [] | Some s \<Rightarrow> s))
      \<notin> {''new'', ''active'', ''warm'', ''dormant''}"
    by (simp add: py_lower_def py_strip_def py_isspace_def py_lower_char_def char_of_eq_iff)
  have 2: "py_lower (py_strip (case None of None \<Rightarrow> [] | Some s \<Rightarrow> s))
      \<notin> {''new'', ''active'', ''warm'', ''dormant''}"
    by (simp add: py_lower_def py_strip_def)
  have w: "map fst (filter (\<lambda>x. snd x = ''warm'') (seg reference_engine segments_demo))
             = [Some (CInt 4), Some (CInt 5)]"
    by (simp add: segments_demo_seg)
  note a = unknown_segment_is_warm[OF 1, of reference_engine segments_demo]
  note b = unknown_segment_is_warm[OF 2, of reference_engine segments_demo]
  note a_name = a[THEN conjunct1]
  note b_name = b[THEN conjunct1]
  note a_rows = a[THEN conjunct2, THEN conjunct2, THEN conjunct1]
  note b_rows = b[THEN conjunct2, THEN conjunct2, THEN conjunct1]
  note a_take = a[THEN conjunct2, THEN conjunct2, THEN conjunct2, THEN conjunct2,
      THEN conjunct2, THEN conjunct1]
  note b_take = b[THEN conjunct2, THEN conjunct2, THEN conjunct2, THEN conjunct2,
      THEN conjunct2, THEN conjunct1]
  have n: "segment_name (Some '' VIP '') = ''warm''" "segment_name None = ''warm''"
    by (rule a_name, rule b_name)
  have s: "segment_sql reference_engine segments_demo (Some '' VIP '') = [Some (CInt 4), Some (CInt 5)]"
    "segment_sql reference_engine segments_demo None = [Some (CInt 4), Some (CInt 5)]"
    by (simp_all only: a_rows b_rows w)
  have l: "export_limit 20000 = 20000" "export_limit 1 = 1" "export_limit 200000 = 200000"
    "export_limit 1000000 = 200000" "export_limit 0 = 1" "export_limit (- 5) = 1"
    by (simp_all add: export_limit_def)
  have x1: "action_export_users reference_engine segments_demo (Some '' VIP '') 20000
      = [Some (CInt 4), Some (CInt 5)]"
    by (simp add: a_take w l)
  have x2: "action_export_users reference_engine segments_demo (Some '' VIP '') 1 = [Some (CInt 4)]"
    by (simp add: a_take w l)
  have x3: "action_export_users reference_engine segments_demo (Some '' VIP '') 0 = [Some (CInt 4)]"
    by (simp add: a_take w l)
  have x4: "action_export_users reference_engine segments_demo None 1000000
      = [Some (CInt 4), Some (CInt 5)]"
    by (simp add: b_take w l)
  from 1 2 n s x1 x2 x3 x4 l show ?thesis by (intro conjI)
qed

subsection \<open>Repurchase within 7 days\<close>

lemma sum_case_length: "sum_case c xs = int (length (filter (\<lambda>x. holds (c x)) xs))"
  unfolding sum_case_def by (induction xs) auto

lemma min_agg_Min: "xs \<noteq> [] \<Longrightarrow> min_agg (map Some xs) = Some (Min (set xs))"
proof (induction xs)
  case Nil
  then show ?case by simp
next
  case (Cons x xs)
  show ?case
  proof (cases "xs = []")
    case True
    then show ?thesis by simp
  next
    case False
    with Cons.IH have "min_agg (map Some xs) = Some (Min (set xs))" by simp
    with False show ?thesis by (simp add: min_def)
  qed
qed

lemma first_ts_of_group:
  "min_agg (map (\<lambda>b. Some (snd b)) (filter (\<lambda>b. fst b = Some u) bs))
     = (if user_buy_times bs u = [] then None else Some (Min (set (user_buy_times bs u))))"
proof -
  have "map (\<lambda>b. Some (snd b)) (filter (\<lambda>b. fst b = Some u) bs)
          = map Some (user_buy_times bs u)"
    by (simp add: user_buy_times_def)
  then show ?thesis using min_agg_Min[of "user_buy_times bs u"] by simp
qed

lemma exists_rebuy_null_user: "\<not> holds (exists_rebuy bs (None, f))"
  by (simp add: exists_rebuy_def holds_Some list_ex_iff holds_simps holds_sql_eq_None)

lemma ex_user_buy_times:
  "(\<exists>t\<in>set (user_buy_times bs u). P t) \<longleftrightarrow> (\<exists>b\<in>set bs. fst b = Some u \<and> P (snd b))"
  unfolding user_buy_times_def by force

lemma exists_rebuy_user:
  assumes "user_buy_times bs u \<noteq> []"
  shows "holds (exists_rebuy bs (Some u, Some (Min (set (user_buy_times bs u)))))
           \<longleftrightarrow> spec_repurchaser bs u"
proof -
  let ?m = "Min (set (user_buy_times bs u))"
  have l: "holds (exists_rebuy bs (Some u, Some ?m))
       \<longleftrightarrow> (\<exists>b\<in>set bs. fst b = Some u \<and> ?m < snd b \<and> snd b \<le> ?m + interval_day 7)"
    by (simp add: exists_rebuy_def holds_Some list_ex_iff holds_simps holds_sql_eq holds_sql_gt
        holds_sql_le)
  from assms have r: "spec_repurchaser bs u
       \<longleftrightarrow> (\<exists>t\<in>set (user_buy_times bs u). ?m < t \<and> t \<le> ?m + interval_day 7)"
    by (cases "user_buy_times bs u") (simp_all add: spec_repurchaser_def list_ex_iff Let_def)
  have "(\<exists>t\<in>set (user_buy_times bs u). ?m < t \<and> t \<le> ?m + interval_day 7)
       \<longleftrightarrow> (\<exists>b\<in>set bs. fst b = Some u \<and> ?m < snd b \<and> snd b \<le> ?m + interval_day 7)"
    by (rule ex_user_buy_times)
  with l r show ?thesis by simp
qed

lemma spec_repurchaser_has_buy: "spec_repurchaser bs u \<Longrightarrow> user_buy_times bs u \<noteq> []"
  by (auto simp: spec_repurchaser_def)

lemma user_buy_times_empty: "user_buy_times bs u = [] \<longleftrightarrow> Some u \<notin> fst ` set bs"
  by (auto simp: user_buy_times_def filter_empty_conv image_iff)

lemma first_buy_row:
  assumes "(Some u, f) \<in> set (first_buy bs)"
  shows "user_buy_times bs u \<noteq> [] \<and> f = Some (Min (set (user_buy_times bs u)))"
proof -
  from assms have m: "Some u \<in> fst ` set bs"
    and f: "f = min_agg (map (\<lambda>b. Some (snd b)) (filter (\<lambda>b. fst b = Some u) bs))"
    unfolding first_buy_def by auto
  from m have "user_buy_times bs u \<noteq> []" by (simp add: user_buy_times_empty)
  with f show ?thesis by (simp add: first_ts_of_group)
qed

lemma counted_groups:
  "{g \<in> fst ` set bs.
      holds (exists_rebuy bs (g, min_agg (map (\<lambda>b. Some (snd b)) (filter (\<lambda>b. fst b = g) bs))))}
   = Some ` {u. spec_repurchaser bs u}" (is "?L = ?R")
proof (rule set_eqI)
  fix g
  show "g \<in> ?L \<longleftrightarrow> g \<in> ?R"
  proof (cases g)
    case None
    then show ?thesis by (simp add: exists_rebuy_null_user)
  next
    case (Some u)
    show ?thesis
    proof (cases "user_buy_times bs u = []")
      case True
      with spec_repurchaser_has_buy[of bs u] show ?thesis
        unfolding Some using user_buy_times_empty[of bs u] by auto
    next
      case False
      then have "Some u \<in> fst ` set bs" by (simp add: user_buy_times_empty)
      with False exists_rebuy_user[OF False] show ?thesis
        unfolding Some by (auto simp: first_ts_of_group)
    qed
  qed
qed

lemma length_first_buy: "int (length (first_buy bs)) = int (card (fst ` set bs))"
  by (simp add: first_buy_def length_remdups_card_conv)

lemma sum_first_buy:
  "sum_case (exists_rebuy bs) (first_buy bs) = int (card {u. spec_repurchaser bs u})"
proof -
  let ?f = "\<lambda>g. (g, min_agg (map (\<lambda>b. Some (snd b)) (filter (\<lambda>b. fst b = g) bs)))"
  let ?P = "\<lambda>g. holds (exists_rebuy bs (?f g))"
  have "sum_case (exists_rebuy bs) (first_buy bs)
          = int (length (filter ?P (remdups (map fst bs))))"
    by (simp add: sum_case_length first_buy_def filter_map comp_def)
  also have "length (filter ?P (remdups (map fst bs))) = card (set (filter ?P (remdups (map fst bs))))"
    by (rule distinct_card[symmetric]) simp
  also have "set (filter ?P (remdups (map fst bs))) = {g \<in> fst ` set bs. ?P g}"
    by auto
  also have "\<dots> = Some ` {u. spec_repurchaser bs u}" by (rule counted_groups)
  also have "card (Some ` {u. spec_repurchaser bs u}) = card {u. spec_repurchaser bs u}"
    by (rule card_image) simp
  finally show ?thesis .
qed

lemma first_buy_empty: "first_buy bs = [] \<longleftrightarrow> bs = []"
  by (simp add: first_buy_def)

lemma set_map_filter: "set (List.map_filter f xs) = {y. \<exists>x\<in>set xs. f x = Some y}"
  by (induction xs) (auto split: option.splits)

lemma buys_row:
  "(case ts_expr E (ub_ts r) of
      None \<Rightarrow> None
    | Some t \<Rightarrow> (if holds (buy_pred E (ub_behavior r)) then Some (ub_user r, t) else None))
     = Some (u, t')
   \<longleftrightarrow> ub_user r = u \<and> ts_expr E (ub_ts r) = Some t' \<and>
       (\<exists>c. ub_behavior r = Some c \<and> (lower E (varchar E c) = ''buy'' \<or> varchar E c = ''4''))"
  by (cases "ts_expr E (ub_ts r)"; cases "ub_behavior r")
    (auto simp: buy_pred_def holds_def)

lemma set_buys:
  "set (buys E tbl) =
     {(ub_user r, t) | r t. r \<in> set tbl \<and> ts_expr E (ub_ts r) = Some t \<and>
        (\<exists>c. ub_behavior r = Some c \<and> (lower E (varchar E c) = ''buy'' \<or> varchar E c = ''4''))}"
proof (rule set_eqI)
  fix x :: "'a option \<times> int"
  obtain u t where x: "x = (u, t)" by (cases x)
  show "x \<in> set (buys E tbl) \<longleftrightarrow>
     x \<in> {(ub_user r, t) | r t. r \<in> set tbl \<and> ts_expr E (ub_ts r) = Some t \<and>
        (\<exists>c. ub_behavior r = Some c \<and> (lower E (varchar E c) = ''buy'' \<or> varchar E c = ''4''))}"
    unfolding x buys_def set_map_filter mem_Collect_eq buys_row by blast
qed

lemma within_7_days: "spec_repurchaser [(Some u, t), (Some u, t + interval_day 7)] u"
  by (simp add: spec_repurchaser_def user_buy_times_def interval_day_def usec_per_day_def)

lemma after_8_days: "\<not> spec_repurchaser [(Some u, t), (Some u, t + interval_day 8)] u"
  by (simp add: spec_repurchaser_def user_buy_times_def interval_day_def usec_per_day_def)

text \<open>
  C7. The buy events are the rows whose timestamp decodes and whose behavior is \<open>buy\<close>
  in any case or the raw code \<open>4\<close>. The first purchase of a user is the least timestamp
  of the user's buy events, and the user is counted exactly when the rule of the spec
  holds: some buy event of the user is later than the first purchase and at most 7 days
  later. The query's \<open>repurchasers\<close> is the number of these users, \<open>buyers\<close> the number
  of distinct values of the user column among the buy events, and the rate their
  quotient, null when there is no buy event. A second purchase exactly 7 days after the
  first satisfies the rule, one 8 days after it does not.
\<close>

theorem repurchase_within_7_days:
  "set (buys E tbl) =
     {(ub_user r, t) | r t. r \<in> set tbl \<and> ts_expr E (ub_ts r) = Some t \<and>
        (\<exists>c. ub_behavior r = Some c \<and> (lower E (varchar E c) = ''buy'' \<or> varchar E c = ''4''))}
   \<and> (\<forall>u f. (Some u, f) \<in> set (first_buy (buys E tbl)) \<longrightarrow>
          f = Some (Min (set (user_buy_times (buys E tbl) u))) \<and>
          (holds (exists_rebuy (buys E tbl) (Some u, f)) \<longleftrightarrow> spec_repurchaser (buys E tbl) u))
   \<and> buyers (repurchase_7d E tbl) = int (card (fst ` set (buys E tbl)))
   \<and> repurchasers (repurchase_7d E tbl) =
        (if buys E tbl = [] then None
         else Some (int (card {u. spec_repurchaser (buys E tbl) u})))
   \<and> rep_rate (repurchase_7d E tbl) =
        (if buys E tbl = [] then None
         else Some (of_int (int (card {u. spec_repurchaser (buys E tbl) u}))
                    / of_int (int (card (fst ` set (buys E tbl))))))
   \<and> spec_repurchaser [(Some v, t0), (Some v, t0 + interval_day 7)] v
   \<and> \<not> spec_repurchaser [(Some v, t0), (Some v, t0 + interval_day 8)] v"
proof -
  let ?bs = "buys E tbl"
  have 1: "\<forall>u f. (Some u, f) \<in> set (first_buy ?bs) \<longrightarrow>
          f = Some (Min (set (user_buy_times ?bs u))) \<and>
          (holds (exists_rebuy ?bs (Some u, f)) \<longleftrightarrow> spec_repurchaser ?bs u)"
  proof (intro allI impI)
    fix u f
    assume "(Some u, f) \<in> set (first_buy ?bs)"
    from first_buy_row[OF this] exists_rebuy_user[of ?bs u]
    show "f = Some (Min (set (user_buy_times ?bs u))) \<and>
          (holds (exists_rebuy ?bs (Some u, f)) \<longleftrightarrow> spec_repurchaser ?bs u)"
      by simp
  qed
  have 2: "buyers (repurchase_7d E tbl) = int (card (fst ` set ?bs))"
    by (simp add: repurchase_7d_def Let_def length_first_buy)
  have 3: "repurchasers (repurchase_7d E tbl) =
        (if ?bs = [] then None else Some (int (card {u. spec_repurchaser ?bs u})))"
    by (simp add: repurchase_7d_def Let_def first_buy_empty sum_first_buy)
  have n: "int (card (fst ` set ?bs)) \<noteq> 0" if "?bs \<noteq> []"
    using that by (simp add: card_eq_0_iff)
  have 4: "rep_rate (repurchase_7d E tbl) =
        (if ?bs = [] then None
         else Some (of_int (int (card {u. spec_repurchaser ?bs u}))
                    / of_int (int (card (fst ` set ?bs)))))"
    using n by (simp add: repurchase_7d_def Let_def first_buy_empty sum_first_buy
        length_first_buy rate_def)
  from set_buys[of E tbl] 1 2 3 4 within_7_days[of v t0] after_8_days[of v t0]
  show ?thesis by (intro conjI)
qed

lemma rebuy_demo_buys_eval: "buys reference_engine rebuy_demo = rebuy_demo_buys"
  by (simp add: buys_def rebuy_demo_def rebuy_demo_buys_def ub_row_def ts_of_def buy_pred_def
      holds_def ts_defs ref_defs)

lemma rebuy_demo_query:
  "repurchase_7d reference_engine rebuy_demo
     = \<lparr>buyers = 2, repurchasers = Some 1, rep_rate = Some (1 / 2)\<rparr>"
  by (simp add: repurchase_7d_def rebuy_demo_buys_eval rebuy_demo_buys_def first_buy_def
      exists_rebuy_def sum_case_def sql_all_def sql_eq_def sql_gt_def sql_le_def holds_def
      rate_def ts_of_def days_from_civil_def usec_per_day_def interval_day_def Let_def)

theorem repurchase_within_7_days_witness:
  "buys reference_engine rebuy_demo = rebuy_demo_buys
   \<and> (Some (CInt 1), Some (ts_of 2024 1 1 10)) \<in> set (first_buy rebuy_demo_buys)
   \<and> (Some (CInt 2), Some (ts_of 2024 1 1 10)) \<in> set (first_buy rebuy_demo_buys)
   \<and> user_buy_times rebuy_demo_buys (CInt 1) = [ts_of 2024 1 1 10, ts_of 2024 1 8 10]
   \<and> user_buy_times rebuy_demo_buys (CInt 2) = [ts_of 2024 1 1 10, ts_of 2024 1 9 10]
   \<and> ts_of 2024 1 8 10 = ts_of 2024 1 1 10 + interval_day 7
   \<and> ts_of 2024 1 9 10 = ts_of 2024 1 1 10 + interval_day 8
   \<and> holds (exists_rebuy rebuy_demo_buys (Some (CInt 1), Some (ts_of 2024 1 1 10)))
   \<and> spec_repurchaser rebuy_demo_buys (CInt 1)
   \<and> \<not> holds (exists_rebuy rebuy_demo_buys (Some (CInt 2), Some (ts_of 2024 1 1 10)))
   \<and> \<not> spec_repurchaser rebuy_demo_buys (CInt 2)
   \<and> repurchase_7d reference_engine rebuy_demo
        = \<lparr>buyers = 2, repurchasers = Some 1, rep_rate = Some (1 / 2)\<rparr>"
proof -
  note e = rebuy_demo_buys_def ts_of_def days_from_civil_def usec_per_day_def interval_day_def
  have m: "(Some (CInt 1), Some (ts_of 2024 1 1 10)) \<in> set (first_buy rebuy_demo_buys)"
    "(Some (CInt 2), Some (ts_of 2024 1 1 10)) \<in> set (first_buy rebuy_demo_buys)"
    by (simp_all add: first_buy_def e)
  have u: "user_buy_times rebuy_demo_buys (CInt 1) = [ts_of 2024 1 1 10, ts_of 2024 1 8 10]"
    "user_buy_times rebuy_demo_buys (CInt 2) = [ts_of 2024 1 1 10, ts_of 2024 1 9 10]"
    by (simp_all add: user_buy_times_def e)
  have d: "ts_of 2024 1 8 10 = ts_of 2024 1 1 10 + interval_day 7"
    "ts_of 2024 1 9 10 = ts_of 2024 1 1 10 + interval_day 8"
    by (simp_all add: e)
  have s: "spec_repurchaser rebuy_demo_buys (CInt 1)" "\<not> spec_repurchaser rebuy_demo_buys (CInt 2)"
    by (simp_all add: spec_repurchaser_def u) (simp_all add: e)
  note w = repurchase_within_7_days[of reference_engine rebuy_demo, unfolded rebuy_demo_buys_eval]
  note p = w[THEN conjunct2, THEN conjunct1, rule_format]
  from p[OF m(1), THEN conjunct2] s(1)
  have h1: "holds (exists_rebuy rebuy_demo_buys (Some (CInt 1), Some (ts_of 2024 1 1 10)))"
    by simp
  from p[OF m(2), THEN conjunct2] s(2)
  have h2: "\<not> holds (exists_rebuy rebuy_demo_buys (Some (CInt 2), Some (ts_of 2024 1 1 10)))"
    by simp
  note h = h1 h2
  from rebuy_demo_buys_eval m u d h s rebuy_demo_query show ?thesis by simp
qed

text \<open>
  With no buy event the query's sum is \<open>NULL\<close> and its rate is \<open>NULL\<close>; the payload of
  \<open>_metrics_payload\<close> then raises on \<open>int(rep[1])\<close>. With a buy event the payload is the
  row of the query.
\<close>

lemma rep_payload_cases:
  "rep_payload E tbl =
     (if buys E tbl = [] then Inl TypeError
      else Inr \<lparr>p_buyers = buyers (repurchase_7d E tbl),
                p_repurchasers_7d = sum_case (exists_rebuy (buys E tbl)) (first_buy (buys E tbl)),
                p_rate = rep_rate (repurchase_7d E tbl)\<rparr>)"
  by (simp add: rep_payload_def repurchase_7d_def Let_def first_buy_empty)

end
